theory Spec2Isabelle
  imports Complex_Main
begin

section \<open>Shallow-water integrator (shallow\_water\_sim.py)\<close>

text \<open>
  The script integrates the 2D shallow-water equations on an \<open>N_x \<times> N_y\<close> grid with numpy
  arrays. Its module-level constants form the configuration; the arrays live in a store
  (numpy arrays are objects: a slice assignment mutates the object, \<open>np.copy\<close> and an array
  expression allocate a new one, \<open>list.append\<close> stores a reference).
  Python floats and numpy float64 values are modelled as exact reals: rounding, infinities
  and NaN are not modelled.
\<close>

subsection \<open>Arrays and the numpy operations the script uses\<close>

type_synonym 'a array = "'a list list"

text \<open>A two-dimensional array is the list of its rows; \<open>shape n m a\<close> says that \<open>a\<close> has
  \<open>n\<close> rows of \<open>m\<close> entries each.\<close>

definition shape :: "nat \<Rightarrow> nat \<Rightarrow> 'a array \<Rightarrow> bool" where
  "shape n m a = (length a = n \<and> list_all (\<lambda>r. length r = m) a)"

text \<open>\<open>np.zeros((n, m))\<close>\<close>

definition zeros :: "nat \<Rightarrow> nat \<Rightarrow> real array" where
  "zeros n m = replicate n (replicate m 0)"

text \<open>
  Index ranges along an axis of length \<open>n\<close>, as half-open intervals \<open>(lo, hi)\<close>:
  \<open>:-1\<close>, \<open>1:\<close>, \<open>:\<close>, and the integer indices \<open>-1\<close> and \<open>0\<close>. An integer index selects a
  one-dimensional row or column in numpy; here it is kept as a slice of width one, which holds
  the same elements in the same order. An integer index on an empty axis raises IndexError;
  that check is written where the script indexes (see \<open>northern_boundary\<close> and
  \<open>eastern_boundary\<close> below).
\<close>

type_synonym range = "nat \<times> nat"

definition upto_last :: "nat \<Rightarrow> range" where
  "upto_last n = (0, n - 1)"

definition from_one :: "nat \<Rightarrow> range" where
  "from_one n = (1, n)"

definition every :: "nat \<Rightarrow> range" where
  "every n = (0, n)"

definition at_last :: "nat \<Rightarrow> range" where
  "at_last n = (n - 1, n)"

definition at_first :: "nat \<Rightarrow> range" where
  "at_first n = (0, 1)"

text \<open>Reading a slice \<open>a[rs, cs]\<close>.\<close>

definition slice2 :: "range \<Rightarrow> range \<Rightarrow> 'a array \<Rightarrow> 'a array" where
  "slice2 rs cs a =
     map (\<lambda>r. take (snd cs - fst cs) (drop (fst cs) r)) (take (snd rs - fst rs) (drop (fst rs) a))"

text \<open>The in-place assignment \<open>a[rs, cs] = e\<close>: the entries of \<open>a\<close> inside the slice are
  overwritten with those of \<open>e\<close>, the others keep their value.\<close>

definition assign2 :: "range \<Rightarrow> range \<Rightarrow> 'a array \<Rightarrow> 'a array \<Rightarrow> 'a array" where
  "assign2 rs cs a e =
     map (\<lambda>i. map (\<lambda>j. if fst rs \<le> i \<and> i < snd rs \<and> fst cs \<le> j \<and> j < snd cs
                        then e ! (i - fst rs) ! (j - fst cs) else a ! i ! j)
                 [0..<length (a ! i)])
         [0..<length a]"

text \<open>The in-place assignment of a scalar, \<open>a[rs, cs] = c\<close>.\<close>

definition fill2 :: "range \<Rightarrow> range \<Rightarrow> 'a array \<Rightarrow> 'a \<Rightarrow> 'a array" where
  "fill2 rs cs a c =
     map (\<lambda>i. map (\<lambda>j. if fst rs \<le> i \<and> i < snd rs \<and> fst cs \<le> j \<and> j < snd cs
                        then c else a ! i ! j)
                 [0..<length (a ! i)])
         [0..<length a]"

text \<open>Elementwise operations on arrays of equal shape.\<close>

definition ew1 :: "('a \<Rightarrow> 'b) \<Rightarrow> 'a array \<Rightarrow> 'b array" where
  "ew1 f a = map (map f) a"

definition ew2 :: "('a \<Rightarrow> 'b \<Rightarrow> 'c) \<Rightarrow> 'a array \<Rightarrow> 'b array \<Rightarrow> 'c array" where
  "ew2 f a b = map2 (map2 f) a b"

text \<open>\<open>np.where(c, a, b)\<close>\<close>

definition np_where :: "bool array \<Rightarrow> 'a array \<Rightarrow> 'a array \<Rightarrow> 'a array" where
  "np_where c a b = ew2 (\<lambda>t (x, y). if t then x else y) c (ew2 Pair a b)"

text \<open>\<open>np.sum(a)\<close>\<close>

definition np_sum :: "real array \<Rightarrow> real" where
  "np_sum a = sum_list (map sum_list a)"

subsection \<open>Configuration: the module-level constants\<close>

record config =
  L_x :: real
  L_y :: real
  g :: real
  H :: real
  f_0 :: real
  beta :: real
  rho_0 :: real
  tau_0 :: real
  use_coriolis :: bool
  use_friction :: bool
  use_wind :: bool
  use_beta :: bool
  use_source :: bool
  use_sink :: bool
  N_x :: nat
  N_y :: nat
  max_time_step :: int
  anim_interval :: int

text \<open>The constants as the script sets them. A negative \<open>N_x\<close> or \<open>N_y\<close> makes
  \<open>np.linspace\<close> raise ValueError at startup; the type \<open>nat\<close> leaves those out.\<close>

definition default_config :: config where
  "default_config =
     \<lparr> L_x = 1000000, L_y = 1000000, g = 981 / 100, H = 100, f_0 = 1 / 10000,
       beta = 2 / 100000000000, rho_0 = 1024, tau_0 = 1 / 10,
       use_coriolis = True, use_friction = True, use_wind = False, use_beta = True,
       use_source = False, use_sink = False,
       N_x = 150, N_y = 150, max_time_step = 5000, anim_interval = 20 \<rparr>"

text \<open>\<open>dx = L_x/(N_x - 1)\<close>, \<open>dy = L_y/(N_y - 1)\<close>, \<open>dt = 0.1*min(dx, dy)/np.sqrt(g*H)\<close>.
  Python raises ZeroDivisionError for \<open>N_x = 1\<close> or \<open>N_y = 1\<close>; \<open>program\<close> below checks that
  before these values are used.\<close>

definition dx :: "config \<Rightarrow> real" where
  "dx cfg = L_x cfg / real_of_int (int (N_x cfg) - 1)"

definition dy :: "config \<Rightarrow> real" where
  "dy cfg = L_y cfg / real_of_int (int (N_y cfg) - 1)"

definition dt :: "config \<Rightarrow> real" where
  "dt cfg = (1 / 10) * min (dx cfg) (dy cfg) / sqrt (g cfg * H cfg)"

text \<open>\<open>np.linspace(start, stop, num)\<close> for \<open>num \<noteq> 1\<close> and \<open>np.meshgrid(xs, ys)\<close>, whose two
  results have one row per element of \<open>ys\<close>. \<open>np.transpose\<close> of an array of shape \<open>(n, m)\<close>
  has shape \<open>(m, n)\<close>; the shape is passed along, since a list of rows does not record the
  row length of an array without rows. So \<open>X[i, j] = x[i]\<close> and \<open>Y[i, j] = y[j]\<close>.\<close>

definition linspace :: "real \<Rightarrow> real \<Rightarrow> nat \<Rightarrow> real list" where
  "linspace start stop num =
     map (\<lambda>i. start + real i * ((stop - start) / real_of_int (int num - 1))) [0..<num]"

definition meshgrid :: "'a list \<Rightarrow> 'a list \<Rightarrow> 'a array \<times> 'a array" where
  "meshgrid xs ys = (map (\<lambda>y. xs) ys, map (\<lambda>y. map (\<lambda>x. y) xs) ys)"

definition np_transpose :: "nat \<Rightarrow> nat \<Rightarrow> 'a array \<Rightarrow> 'a array" where
  "np_transpose n m a = map (\<lambda>i. map (\<lambda>j. a ! j ! i) [0..<n]) [0..<m]"

definition x_pts :: "config \<Rightarrow> real list" where
  "x_pts cfg = linspace (- L_x cfg / 2) (L_x cfg / 2) (N_x cfg)"

definition y_pts :: "config \<Rightarrow> real list" where
  "y_pts cfg = linspace (- L_y cfg / 2) (L_y cfg / 2) (N_y cfg)"

definition X_grid :: "config \<Rightarrow> real array" where
  "X_grid cfg = np_transpose (N_y cfg) (N_x cfg) (fst (meshgrid (x_pts cfg) (y_pts cfg)))"

definition Y_grid :: "config \<Rightarrow> real array" where
  "Y_grid cfg = np_transpose (N_y cfg) (N_x cfg) (snd (meshgrid (x_pts cfg) (y_pts cfg)))"

text \<open>The initial surface elevation,
  \<open>np.exp(-((X-L_x/2.7)**2/(2*(0.05E+6)**2) + (Y-L_y/4)**2/(2*(0.05E+6)**2)))\<close>.\<close>

definition eta_initial :: "config \<Rightarrow> real array" where
  "eta_initial cfg =
     ew1 (\<lambda>z. exp (- z))
       (ew2 (+)
          (ew1 (\<lambda>x. (x - L_x cfg / (27 / 10))\<^sup>2 / (2 * 50000\<^sup>2)) (X_grid cfg))
          (ew1 (\<lambda>y. (y - L_y cfg / 4)\<^sup>2 / (2 * 50000\<^sup>2)) (Y_grid cfg)))"

text \<open>A two-dimensional Gaussian bump of amplitude \<open>amp\<close> at its centre \<open>(cx, cy)\<close> and decay
  scale \<open>sigma\<close> in both directions: the shape that the specification names for the initial
  elevation, to be compared with \<open>eta_initial\<close>.\<close>

definition gaussian_bump :: "real \<Rightarrow> real \<Rightarrow> real \<Rightarrow> real \<Rightarrow> real \<Rightarrow> real \<Rightarrow> real" where
  "gaussian_bump amp sigma cx cy x y =
     amp * exp (- ((x - cx)\<^sup>2 / (2 * sigma\<^sup>2) + (y - cy)\<^sup>2 / (2 * sigma\<^sup>2)))"

subsection \<open>The store and the program state\<close>

type_synonym addr = nat

text \<open>Every module-level array variable holds the address of an array object in \<open>heap\<close>;
  \<open>fresh\<close> is the next unused address. The three sample lists hold addresses as well.\<close>

record state =
  heap :: "addr \<Rightarrow> real array"
  fresh :: addr
  u_n :: addr
  u_np1 :: addr
  v_n :: addr
  v_np1 :: addr
  eta_n :: addr
  eta_np1 :: addr
  h_e :: addr
  h_w :: addr
  h_n :: addr
  h_s :: addr
  uhwe :: addr
  vhns :: addr
  time_step :: int
  eta_list :: "addr list"
  u_list :: "addr list"
  v_list :: "addr list"

datatype py_error = ZeroDivisionError | IndexError

definition rd :: "state \<Rightarrow> addr \<Rightarrow> real array" where
  "rd s a = heap s a"

definition wr :: "addr \<Rightarrow> real array \<Rightarrow> state \<Rightarrow> state" where
  "wr a v s = s\<lparr>heap := (heap s)(a := v)\<rparr>"

text \<open>Allocation of a new array object (\<open>np.zeros\<close>, \<open>np.copy\<close>, the value of an array
  expression): the object is stored at the next unused address.\<close>

definition alloc :: "real array \<Rightarrow> state \<Rightarrow> addr \<times> state" where
  "alloc v s = (fresh s, s\<lparr>heap := (heap s)(fresh s := v), fresh := Suc (fresh s)\<rparr>)"

subsection \<open>The array expressions of the time step\<close>

text \<open>Each definition is the right-hand side of one statement of the script, with the
  in-place slice assignment applied to the old contents of the target buffer.\<close>

text \<open>\<open>u_np1[:-1, :] = u_n[:-1, :] - g*dt/dx*(eta_n[1:, :] - eta_n[:-1, :])\<close>\<close>

definition momentum_u :: "config \<Rightarrow> real array \<Rightarrow> real array \<Rightarrow> real array \<Rightarrow> real array" where
  "momentum_u cfg U1 U E =
     assign2 (upto_last (N_x cfg)) (every (N_y cfg)) U1
       (ew2 (-) (slice2 (upto_last (N_x cfg)) (every (N_y cfg)) U)
          (ew1 ((*) (g cfg * dt cfg / dx cfg))
             (ew2 (-) (slice2 (from_one (N_x cfg)) (every (N_y cfg)) E)
                      (slice2 (upto_last (N_x cfg)) (every (N_y cfg)) E))))"

text \<open>\<open>v_np1[:, :-1] = v_n[:, :-1] - g*dt/dy*(eta_n[:, 1:] - eta_n[:, :-1])\<close>\<close>

definition momentum_v :: "config \<Rightarrow> real array \<Rightarrow> real array \<Rightarrow> real array \<Rightarrow> real array" where
  "momentum_v cfg V1 V E =
     assign2 (every (N_x cfg)) (upto_last (N_y cfg)) V1
       (ew2 (-) (slice2 (every (N_x cfg)) (upto_last (N_y cfg)) V)
          (ew1 ((*) (g cfg * dt cfg / dy cfg))
             (ew2 (-) (slice2 (every (N_x cfg)) (from_one (N_y cfg)) E)
                      (slice2 (every (N_x cfg)) (upto_last (N_y cfg)) E))))"

text \<open>\<open>np.where(u_np1[:-1, :] > 0, eta_n[:-1, :] + H, eta_n[1:, :] + H)\<close>, the right-hand side
  of both the \<open>h_e[:-1, :]\<close> and the \<open>h_w[1:, :]\<close> assignment.\<close>

definition upwind_x :: "config \<Rightarrow> real array \<Rightarrow> real array \<Rightarrow> real array" where
  "upwind_x cfg U1 E =
     np_where (ew1 (\<lambda>a. a > 0) (slice2 (upto_last (N_x cfg)) (every (N_y cfg)) U1))
       (ew1 (\<lambda>a. a + H cfg) (slice2 (upto_last (N_x cfg)) (every (N_y cfg)) E))
       (ew1 (\<lambda>a. a + H cfg) (slice2 (from_one (N_x cfg)) (every (N_y cfg)) E))"

text \<open>\<open>np.where(v_np1[:, :-1] > 0, eta_n[:, :-1] + H, eta_n[:, 1:] + H)\<close>, the right-hand side
  of both the \<open>h_n[:, :-1]\<close> and the \<open>h_s[:, 1:]\<close> assignment.\<close>

definition upwind_y :: "config \<Rightarrow> real array \<Rightarrow> real array \<Rightarrow> real array" where
  "upwind_y cfg V1 E =
     np_where (ew1 (\<lambda>a. a > 0) (slice2 (every (N_x cfg)) (upto_last (N_y cfg)) V1))
       (ew1 (\<lambda>a. a + H cfg) (slice2 (every (N_x cfg)) (upto_last (N_y cfg)) E))
       (ew1 (\<lambda>a. a + H cfg) (slice2 (every (N_x cfg)) (from_one (N_y cfg)) E))"

text \<open>\<open>h_e[:-1, :] = np.where(...)\<close>; \<open>h_e[-1, :] = eta_n[-1, :] + H\<close>\<close>

definition thickness_e :: "config \<Rightarrow> real array \<Rightarrow> real array \<Rightarrow> real array \<Rightarrow> real array" where
  "thickness_e cfg He U1 E =
     assign2 (at_last (N_x cfg)) (every (N_y cfg))
       (assign2 (upto_last (N_x cfg)) (every (N_y cfg)) He (upwind_x cfg U1 E))
       (ew1 (\<lambda>a. a + H cfg) (slice2 (at_last (N_x cfg)) (every (N_y cfg)) E))"

text \<open>\<open>h_w[0, :] = eta_n[0, :] + H\<close>; \<open>h_w[1:, :] = np.where(...)\<close>\<close>

definition thickness_w :: "config \<Rightarrow> real array \<Rightarrow> real array \<Rightarrow> real array \<Rightarrow> real array" where
  "thickness_w cfg Hw U1 E =
     assign2 (from_one (N_x cfg)) (every (N_y cfg))
       (assign2 (at_first (N_x cfg)) (every (N_y cfg)) Hw
          (ew1 (\<lambda>a. a + H cfg) (slice2 (at_first (N_x cfg)) (every (N_y cfg)) E)))
       (upwind_x cfg U1 E)"

text \<open>\<open>h_n[:, :-1] = np.where(...)\<close>; \<open>h_n[:, -1] = eta_n[:, -1] + H\<close>\<close>

definition thickness_n :: "config \<Rightarrow> real array \<Rightarrow> real array \<Rightarrow> real array \<Rightarrow> real array" where
  "thickness_n cfg Hn V1 E =
     assign2 (every (N_x cfg)) (at_last (N_y cfg))
       (assign2 (every (N_x cfg)) (upto_last (N_y cfg)) Hn (upwind_y cfg V1 E))
       (ew1 (\<lambda>a. a + H cfg) (slice2 (every (N_x cfg)) (at_last (N_y cfg)) E))"

text \<open>\<open>h_s[:, 0] = eta_n[:, 0] + H\<close>; \<open>h_s[:, 1:] = np.where(...)\<close>\<close>

definition thickness_s :: "config \<Rightarrow> real array \<Rightarrow> real array \<Rightarrow> real array \<Rightarrow> real array" where
  "thickness_s cfg Hs V1 E =
     assign2 (every (N_x cfg)) (from_one (N_y cfg))
       (assign2 (every (N_x cfg)) (at_first (N_y cfg)) Hs
          (ew1 (\<lambda>a. a + H cfg) (slice2 (every (N_x cfg)) (at_first (N_y cfg)) E)))
       (upwind_y cfg V1 E)"

text \<open>\<open>uhwe[0, :] = u_np1[0, :]*h_e[0, :]\<close>;
  \<open>uhwe[1:, :] = u_np1[1:, :]*h_e[1:, :] - u_np1[:-1, :]*h_w[1:, :]\<close>\<close>

definition flux_x :: "config \<Rightarrow> real array \<Rightarrow> real array \<Rightarrow> real array \<Rightarrow> real array \<Rightarrow> real array" where
  "flux_x cfg Uh U1 He Hw =
     assign2 (from_one (N_x cfg)) (every (N_y cfg))
       (assign2 (at_first (N_x cfg)) (every (N_y cfg)) Uh
          (ew2 (*) (slice2 (at_first (N_x cfg)) (every (N_y cfg)) U1)
                   (slice2 (at_first (N_x cfg)) (every (N_y cfg)) He)))
       (ew2 (-)
          (ew2 (*) (slice2 (from_one (N_x cfg)) (every (N_y cfg)) U1)
                   (slice2 (from_one (N_x cfg)) (every (N_y cfg)) He))
          (ew2 (*) (slice2 (upto_last (N_x cfg)) (every (N_y cfg)) U1)
                   (slice2 (from_one (N_x cfg)) (every (N_y cfg)) Hw)))"

text \<open>\<open>vhns[:, 0] = v_np1[:, 0]*h_n[:, 0]\<close>;
  \<open>vhns[:, 1:] = v_np1[:, 1:]*h_n[:, 1:] - v_np1[:, :-1]*h_s[:, 1:]\<close>\<close>

definition flux_y :: "config \<Rightarrow> real array \<Rightarrow> real array \<Rightarrow> real array \<Rightarrow> real array \<Rightarrow> real array" where
  "flux_y cfg Vh V1 Hn Hs =
     assign2 (every (N_x cfg)) (from_one (N_y cfg))
       (assign2 (every (N_x cfg)) (at_first (N_y cfg)) Vh
          (ew2 (*) (slice2 (every (N_x cfg)) (at_first (N_y cfg)) V1)
                   (slice2 (every (N_x cfg)) (at_first (N_y cfg)) Hn)))
       (ew2 (-)
          (ew2 (*) (slice2 (every (N_x cfg)) (from_one (N_y cfg)) V1)
                   (slice2 (every (N_x cfg)) (from_one (N_y cfg)) Hn))
          (ew2 (*) (slice2 (every (N_x cfg)) (upto_last (N_y cfg)) V1)
                   (slice2 (every (N_x cfg)) (from_one (N_y cfg)) Hs)))"

text \<open>\<open>eta_np1[:, :] = eta_n[:, :] - dt*(uhwe[:, :]/dx + vhns[:, :]/dy)\<close>\<close>

definition continuity :: "config \<Rightarrow> real array \<Rightarrow> real array \<Rightarrow> real array \<Rightarrow> real array \<Rightarrow> real array" where
  "continuity cfg E1 E Uh Vh =
     assign2 (every (N_x cfg)) (every (N_y cfg)) E1
       (ew2 (-) (slice2 (every (N_x cfg)) (every (N_y cfg)) E)
          (ew1 ((*) (dt cfg))
             (ew2 (+)
                (ew1 (\<lambda>a. a / dx cfg) (slice2 (every (N_x cfg)) (every (N_y cfg)) Uh))
                (ew1 (\<lambda>a. a / dy cfg) (slice2 (every (N_x cfg)) (every (N_y cfg)) Vh)))))"

subsection \<open>The statements of the time step\<close>

definition update_u_np1 :: "config \<Rightarrow> state \<Rightarrow> state" where
  "update_u_np1 cfg s =
     wr (u_np1 s) (momentum_u cfg (rd s (u_np1 s)) (rd s (u_n s)) (rd s (eta_n s))) s"

definition update_v_np1 :: "config \<Rightarrow> state \<Rightarrow> state" where
  "update_v_np1 cfg s =
     wr (v_np1 s) (momentum_v cfg (rd s (v_np1 s)) (rd s (v_n s)) (rd s (eta_n s))) s"

text \<open>\<open>v_np1[:, -1] = 0.0\<close> and \<open>u_np1[-1, :] = 0.0\<close>: the index \<open>-1\<close> raises IndexError on
  an axis of length 0.\<close>

definition northern_boundary :: "config \<Rightarrow> state \<Rightarrow> py_error + state" where
  "northern_boundary cfg s =
     (if N_y cfg = 0 then Inl IndexError
      else Inr (wr (v_np1 s) (fill2 (every (N_x cfg)) (at_last (N_y cfg)) (rd s (v_np1 s)) 0) s))"

definition eastern_boundary :: "config \<Rightarrow> state \<Rightarrow> py_error + state" where
  "eastern_boundary cfg s =
     (if N_x cfg = 0 then Inl IndexError
      else Inr (wr (u_np1 s) (fill2 (at_last (N_x cfg)) (every (N_y cfg)) (rd s (u_np1 s)) 0) s))"

text \<open>The statements between the boundary overwrite and the rotation index the same two axes
  with \<open>-1\<close> and \<open>0\<close>; they run only after both boundary statements have succeeded, so they
  cannot raise.\<close>

definition compute_h_e :: "config \<Rightarrow> state \<Rightarrow> state" where
  "compute_h_e cfg s =
     wr (h_e s) (thickness_e cfg (rd s (h_e s)) (rd s (u_np1 s)) (rd s (eta_n s))) s"

definition compute_h_w :: "config \<Rightarrow> state \<Rightarrow> state" where
  "compute_h_w cfg s =
     wr (h_w s) (thickness_w cfg (rd s (h_w s)) (rd s (u_np1 s)) (rd s (eta_n s))) s"

definition compute_h_n :: "config \<Rightarrow> state \<Rightarrow> state" where
  "compute_h_n cfg s =
     wr (h_n s) (thickness_n cfg (rd s (h_n s)) (rd s (v_np1 s)) (rd s (eta_n s))) s"

definition compute_h_s :: "config \<Rightarrow> state \<Rightarrow> state" where
  "compute_h_s cfg s =
     wr (h_s s) (thickness_s cfg (rd s (h_s s)) (rd s (v_np1 s)) (rd s (eta_n s))) s"

definition compute_uhwe :: "config \<Rightarrow> state \<Rightarrow> state" where
  "compute_uhwe cfg s =
     wr (uhwe s) (flux_x cfg (rd s (uhwe s)) (rd s (u_np1 s)) (rd s (h_e s)) (rd s (h_w s))) s"

definition compute_vhns :: "config \<Rightarrow> state \<Rightarrow> state" where
  "compute_vhns cfg s =
     wr (vhns s) (flux_y cfg (rd s (vhns s)) (rd s (v_np1 s)) (rd s (h_n s)) (rd s (h_s s))) s"

definition update_eta_np1 :: "config \<Rightarrow> state \<Rightarrow> state" where
  "update_eta_np1 cfg s =
     wr (eta_np1 s)
        (continuity cfg (rd s (eta_np1 s)) (rd s (eta_n s)) (rd s (uhwe s)) (rd s (vhns s))) s"

text \<open>\<open>u_n = np.copy(u_np1)\<close>; \<open>v_n = np.copy(v_np1)\<close>; \<open>eta_n = np.copy(eta_np1)\<close>: each
  copy is a new object and the variable is rebound to it.\<close>

definition rotate_state :: "state \<Rightarrow> state" where
  "rotate_state s =
     (let (a, s1) = alloc (rd s (u_np1 s)) s;
          s2 = s1\<lparr>u_n := a\<rparr>;
          (b, s3) = alloc (rd s2 (v_np1 s2)) s2;
          s4 = s3\<lparr>v_n := b\<rparr>;
          (c, s5) = alloc (rd s4 (eta_np1 s4)) s4
      in s5\<lparr>eta_n := c\<rparr>)"

text \<open>\<open>time_step += 1\<close>, then
  \<open>if (time_step % anim_interval == 0)\<close>: \<open>u_list.append(u_n)\<close>, \<open>v_list.append(v_n)\<close>,
  \<open>eta_list.append(eta_n)\<close>. Python's \<open>%\<close> on integers takes the sign of the divisor, as
  \<open>mod\<close> on \<open>int\<close> does, and raises ZeroDivisionError for a zero divisor.\<close>

definition sample :: "config \<Rightarrow> state \<Rightarrow> py_error + state" where
  "sample cfg s =
     (let s1 = s\<lparr>time_step := time_step s + 1\<rparr>
      in if anim_interval cfg = 0 then Inl ZeroDivisionError
         else if time_step s1 mod anim_interval cfg = 0
              then Inr (s1\<lparr>u_list := u_list s1 @ [u_n s1],
                           v_list := v_list s1 @ [v_n s1],
                           eta_list := eta_list s1 @ [eta_n s1]\<rparr>)
              else Inr s1)"

definition bind_err :: "'e + 'a \<Rightarrow> ('a \<Rightarrow> 'e + 'b) \<Rightarrow> 'e + 'b" where
  "bind_err r f = (case r of Inl e \<Rightarrow> Inl e | Inr a \<Rightarrow> f a)"

text \<open>The body of the \<open>while\<close> loop, statement by statement.\<close>

definition loop_body :: "config \<Rightarrow> state \<Rightarrow> py_error + state" where
  "loop_body cfg s =
     bind_err (northern_boundary cfg (update_v_np1 cfg (update_u_np1 cfg s))) (\<lambda>s1.
     bind_err (eastern_boundary cfg s1) (\<lambda>s2.
     sample cfg (rotate_state (update_eta_np1 cfg (compute_vhns cfg (compute_uhwe cfg
       (compute_h_s cfg (compute_h_n cfg (compute_h_w cfg (compute_h_e cfg s2))))))))))"

subsection \<open>Startup, the block before the loop, and the main loop\<close>

text \<open>The arrays are allocated in the order of the script: \<open>u_n\<close>, \<open>u_np1\<close>, \<open>v_n\<close>, \<open>v_np1\<close>,
  \<open>eta_n\<close>, \<open>eta_np1\<close>, \<open>h_e\<close>, \<open>h_w\<close>, \<open>h_n\<close>, \<open>h_s\<close>, \<open>uhwe\<close>, \<open>vhns\<close> (addresses 0 to 11, all
  \<open>np.zeros((N_x, N_y))\<close>); then \<open>eta_n\<close> is rebound to the new array of the initial condition
  (address 12). \<open>time_step = 1\<close> and the three lists are empty.\<close>

definition initial_state :: "config \<Rightarrow> state" where
  "initial_state cfg =
     \<lparr> heap = (\<lambda>a. if a < 12 then zeros (N_x cfg) (N_y cfg)
                     else if a = 12 then eta_initial cfg else []),
       fresh = 13,
       u_n = 0, u_np1 = 1, v_n = 2, v_np1 = 3, eta_n = 12, eta_np1 = 5,
       h_e = 6, h_w = 7, h_n = 8, h_s = 9, uhwe = 10, vhns = 11,
       time_step = 1, eta_list = [], u_list = [], v_list = [] \<rparr>"

text \<open>The block before the loop: the two momentum updates, then \<open>u_np1[-1, :] = 0.0\<close> and
  \<open>v_np1[:, -1] = 0.0\<close>.\<close>

definition pre_loop :: "config \<Rightarrow> state \<Rightarrow> py_error + state" where
  "pre_loop cfg s =
     bind_err (eastern_boundary cfg (update_v_np1 cfg (update_u_np1 cfg s)))
       (northern_boundary cfg)"

text \<open>\<open>while (time_step < max_time_step): ...\<close>. Every execution of the body adds one to
  \<open>time_step\<close>, so the loop is total.\<close>

function main_loop :: "config \<Rightarrow> state \<Rightarrow> py_error + state" where
  "main_loop cfg s =
     (if time_step s < max_time_step cfg
      then (case loop_body cfg s of Inl e \<Rightarrow> Inl e | Inr s' \<Rightarrow> main_loop cfg s')
      else Inr s)"
  by pat_completeness auto
termination
proof (relation "measure (\<lambda>(cfg, s). nat (max_time_step cfg - time_step s))")
  show "wf (measure (\<lambda>(cfg, s). nat (max_time_step cfg - time_step s)))"
    by simp
next
  fix cfg :: config and s s' :: state
  assume lt: "time_step s < max_time_step cfg" and body: "loop_body cfg s = Inr s'"
  have wr_ts: "\<And>a v t. time_step (wr a v t) = time_step t"
    by (simp add: wr_def)
  from body obtain s1 s2 where
    s1: "northern_boundary cfg (update_v_np1 cfg (update_u_np1 cfg s)) = Inr s1" and
    s2: "eastern_boundary cfg s1 = Inr s2" and
    s3: "sample cfg (rotate_state (update_eta_np1 cfg (compute_vhns cfg (compute_uhwe cfg
       (compute_h_s cfg (compute_h_n cfg (compute_h_w cfg (compute_h_e cfg s2)))))))) = Inr s'"
    unfolding loop_body_def bind_err_def by (auto split: sum.splits)
  have t1: "time_step s1 = time_step s"
    using s1 by (auto simp: northern_boundary_def update_v_np1_def update_u_np1_def wr_ts
        split: if_splits)
  have t2: "time_step s2 = time_step s1"
    using s2 by (auto simp: eastern_boundary_def wr_ts split: if_splits)
  have rot: "\<And>t. time_step (rotate_state t) = time_step t"
    by (simp add: rotate_state_def alloc_def Let_def)
  have smp: "\<And>t t'. sample cfg t = Inr t' \<Longrightarrow> time_step t' = time_step t + 1"
    by (auto simp: sample_def Let_def split: if_splits)
  have "time_step s' = time_step s2 + 1"
    using smp [OF s3]
    by (simp add: rot update_eta_np1_def compute_vhns_def compute_uhwe_def compute_h_s_def
        compute_h_n_def compute_h_w_def compute_h_e_def wr_ts)
  with t1 t2 lt
  show "((cfg, s'), (cfg, s)) \<in> measure (\<lambda>(cfg, s). nat (max_time_step cfg - time_step s))"
    by simp
qed

declare main_loop.simps [simp del]

text \<open>The whole script up to the end of the loop.\<close>

definition program :: "config \<Rightarrow> py_error + state" where
  "program cfg =
     (if N_x cfg = 1 \<or> N_y cfg = 1 then Inl ZeroDivisionError
      else bind_err (pre_loop cfg (initial_state cfg)) (main_loop cfg))"

text \<open>The script with the block before the loop (the momentum update and boundary overwrite
  written there) taken out.\<close>

definition program_without_pre_loop :: "config \<Rightarrow> py_error + state" where
  "program_without_pre_loop cfg =
     (if N_x cfg = 1 \<or> N_y cfg = 1 then Inl ZeroDivisionError
      else main_loop cfg (initial_state cfg))"

text \<open>The result of \<open>k\<close> executions of the loop body in a row.\<close>

fun iterate_body :: "nat \<Rightarrow> config \<Rightarrow> state \<Rightarrow> py_error + state" where
  "iterate_body 0 cfg s = Inr s"
| "iterate_body (Suc k) cfg s = bind_err (loop_body cfg s) (iterate_body k cfg)"

subsection \<open>Well-formed states\<close>

text \<open>The array variables, and those among them whose object the loop mutates in place.\<close>

definition var_addrs :: "state \<Rightarrow> addr list" where
  "var_addrs s = [u_n s, u_np1 s, v_n s, v_np1 s, eta_n s, eta_np1 s,
                  h_e s, h_w s, h_n s, h_s s, uhwe s, vhns s]"

definition buffers :: "state \<Rightarrow> addr list" where
  "buffers s = [u_np1 s, v_np1 s, eta_np1 s, h_e s, h_w s, h_n s, h_s s, uhwe s, vhns s]"

text \<open>In a well-formed state the variables name twelve different allocated objects of shape
  \<open>(N_x, N_y)\<close>, and every sampled reference is allocated and is none of the buffers.\<close>

definition well_formed :: "config \<Rightarrow> state \<Rightarrow> bool" where
  "well_formed cfg s =
     (distinct (var_addrs s) \<and>
      list_all (\<lambda>a. a < fresh s \<and> shape (N_x cfg) (N_y cfg) (rd s a)) (var_addrs s) \<and>
      list_all (\<lambda>a. a < fresh s \<and> a \<notin> set (buffers s)) (u_list s @ v_list s @ eta_list s))"

text \<open>The recorded samples, read from the store.\<close>

definition snapshots :: "state \<Rightarrow> real array list \<times> real array list \<times> real array list" where
  "snapshots s = (map (rd s) (u_list s), map (rd s) (v_list s), map (rd s) (eta_list s))"

subsection \<open>The contents of the buffers at the end of the loop body\<close>

text \<open>The values that one execution of the loop body, started in state \<open>s\<close>, leaves in
  \<open>u_np1\<close>, \<open>v_np1\<close>, the four thickness buffers, the two flux buffers and \<open>eta_np1\<close>
  (lemma \<open>loop_body_vars\<close> below proves that it does).\<close>

definition next_u :: "config \<Rightarrow> state \<Rightarrow> real array" where
  "next_u cfg s =
     fill2 (at_last (N_x cfg)) (every (N_y cfg))
       (momentum_u cfg (rd s (u_np1 s)) (rd s (u_n s)) (rd s (eta_n s))) 0"

definition next_v :: "config \<Rightarrow> state \<Rightarrow> real array" where
  "next_v cfg s =
     fill2 (every (N_x cfg)) (at_last (N_y cfg))
       (momentum_v cfg (rd s (v_np1 s)) (rd s (v_n s)) (rd s (eta_n s))) 0"

definition next_h_e :: "config \<Rightarrow> state \<Rightarrow> real array" where
  "next_h_e cfg s = thickness_e cfg (rd s (h_e s)) (next_u cfg s) (rd s (eta_n s))"

definition next_h_w :: "config \<Rightarrow> state \<Rightarrow> real array" where
  "next_h_w cfg s = thickness_w cfg (rd s (h_w s)) (next_u cfg s) (rd s (eta_n s))"

definition next_h_n :: "config \<Rightarrow> state \<Rightarrow> real array" where
  "next_h_n cfg s = thickness_n cfg (rd s (h_n s)) (next_v cfg s) (rd s (eta_n s))"

definition next_h_s :: "config \<Rightarrow> state \<Rightarrow> real array" where
  "next_h_s cfg s = thickness_s cfg (rd s (h_s s)) (next_v cfg s) (rd s (eta_n s))"

definition next_uhwe :: "config \<Rightarrow> state \<Rightarrow> real array" where
  "next_uhwe cfg s =
     flux_x cfg (rd s (uhwe s)) (next_u cfg s) (next_h_e cfg s) (next_h_w cfg s)"

definition next_vhns :: "config \<Rightarrow> state \<Rightarrow> real array" where
  "next_vhns cfg s =
     flux_y cfg (rd s (vhns s)) (next_v cfg s) (next_h_n cfg s) (next_h_s cfg s)"

definition next_eta :: "config \<Rightarrow> state \<Rightarrow> real array" where
  "next_eta cfg s =
     continuity cfg (rd s (eta_np1 s)) (rd s (eta_n s)) (next_uhwe cfg s) (next_vhns cfg s)"

subsection \<open>A small configuration and state for concrete checks\<close>

text \<open>A \<open>3 \<times> 3\<close> grid with \<open>dx = dy = 1\<close>, \<open>g*H = 4\<close> and hence \<open>dt = 1/20\<close>, sampling at every
  step; and a state at the head of the loop, with the store laid out as at startup and the
  current fields \<open>u_n\<close>, \<open>v_n\<close>, \<open>eta_n\<close> set to chosen values.\<close>

definition test_config :: config where
  "test_config = default_config\<lparr> L_x := 2, L_y := 2, g := 4, H := 1,
     N_x := 3, N_y := 3, max_time_step := 3, anim_interval := 1 \<rparr>"

definition test_state :: state where
  "test_state = (initial_state test_config)
     \<lparr> heap := (heap (initial_state test_config))
         (0 := [[1, 0, -1], [0, 0, 0], [0, 0, 0]],
          2 := [[0, 2, 0], [1, 0, 0], [-1, 0, 0]],
          12 := [[0, 5, 10], [5, 5, 0], [0, 0, 5]]) \<rparr>"

definition test_next :: state where
  "test_next = projr (loop_body test_config test_state)"

definition test_later :: state where
  "test_later = projr (iterate_body 2 test_config test_state)"

text \<open>The same grid with negative domain lengths, so that \<open>dx = dy = -1\<close> and
  \<open>dt = -1/20\<close>.\<close>

definition negative_config :: config where
  "negative_config = test_config\<lparr> L_x := - 2, L_y := - 2 \<rparr>"

section \<open>Properties\<close>

subsection \<open>Array operations\<close>

lemma shape_iff: "shape n m a \<longleftrightarrow> length a = n \<and> (\<forall>i<n. length (a ! i) = m)"
  by (auto simp: shape_def list_all_length)

lemma length_slice2 [simp]:
  "length (slice2 rs cs a) = min (length a - fst rs) (snd rs - fst rs)"
  by (simp add: slice2_def)

lemma length_nth_slice2 [simp]:
  "i < length a - fst rs \<Longrightarrow> i < snd rs - fst rs \<Longrightarrow>
   length (slice2 rs cs a ! i) = min (length (a ! (fst rs + i)) - fst cs) (snd cs - fst cs)"
  by (simp add: slice2_def)

lemma nth_slice2 [simp]:
  "i < length a - fst rs \<Longrightarrow> i < snd rs - fst rs \<Longrightarrow>
   j < length (a ! (fst rs + i)) - fst cs \<Longrightarrow> j < snd cs - fst cs \<Longrightarrow>
   slice2 rs cs a ! i ! j = a ! (fst rs + i) ! (fst cs + j)"
  by (simp add: slice2_def)

lemma length_assign2 [simp]: "length (assign2 rs cs a e) = length a"
  by (simp add: assign2_def)

lemma length_nth_assign2 [simp]:
  "i < length a \<Longrightarrow> length (assign2 rs cs a e ! i) = length (a ! i)"
  by (simp add: assign2_def)

lemma nth_assign2 [simp]:
  "i < length a \<Longrightarrow> j < length (a ! i) \<Longrightarrow>
   assign2 rs cs a e ! i ! j =
     (if fst rs \<le> i \<and> i < snd rs \<and> fst cs \<le> j \<and> j < snd cs
      then e ! (i - fst rs) ! (j - fst cs) else a ! i ! j)"
  by (simp add: assign2_def)

lemma length_fill2 [simp]: "length (fill2 rs cs a c) = length a"
  by (simp add: fill2_def)

lemma length_nth_fill2 [simp]:
  "i < length a \<Longrightarrow> length (fill2 rs cs a c ! i) = length (a ! i)"
  by (simp add: fill2_def)

lemma nth_fill2 [simp]:
  "i < length a \<Longrightarrow> j < length (a ! i) \<Longrightarrow>
   fill2 rs cs a c ! i ! j =
     (if fst rs \<le> i \<and> i < snd rs \<and> fst cs \<le> j \<and> j < snd cs then c else a ! i ! j)"
  by (simp add: fill2_def)

lemma length_ew1 [simp]: "length (ew1 f a) = length a"
  by (simp add: ew1_def)

lemma length_nth_ew1 [simp]: "i < length a \<Longrightarrow> length (ew1 f a ! i) = length (a ! i)"
  by (simp add: ew1_def)

lemma nth_ew1 [simp]:
  "i < length a \<Longrightarrow> j < length (a ! i) \<Longrightarrow> ew1 f a ! i ! j = f (a ! i ! j)"
  by (simp add: ew1_def)

lemma length_ew2 [simp]: "length (ew2 f a b) = min (length a) (length b)"
  by (simp add: ew2_def)

lemma length_nth_ew2 [simp]:
  "i < length a \<Longrightarrow> i < length b \<Longrightarrow>
   length (ew2 f a b ! i) = min (length (a ! i)) (length (b ! i))"
  by (simp add: ew2_def)

lemma nth_ew2 [simp]:
  "i < length a \<Longrightarrow> i < length b \<Longrightarrow> j < length (a ! i) \<Longrightarrow> j < length (b ! i) \<Longrightarrow>
   ew2 f a b ! i ! j = f (a ! i ! j) (b ! i ! j)"
  by (simp add: ew2_def)

lemma length_np_where [simp]:
  "length (np_where c a b) = min (length c) (min (length a) (length b))"
  by (simp add: np_where_def)

lemma length_nth_np_where [simp]:
  "i < length c \<Longrightarrow> i < length a \<Longrightarrow> i < length b \<Longrightarrow>
   length (np_where c a b ! i) = min (length (c ! i)) (min (length (a ! i)) (length (b ! i)))"
  by (simp add: np_where_def)

lemma nth_np_where [simp]:
  "i < length c \<Longrightarrow> i < length a \<Longrightarrow> i < length b \<Longrightarrow>
   j < length (c ! i) \<Longrightarrow> j < length (a ! i) \<Longrightarrow> j < length (b ! i) \<Longrightarrow>
   np_where c a b ! i ! j = (if c ! i ! j then a ! i ! j else b ! i ! j)"
  by (simp add: np_where_def)

lemmas range_defs = upto_last_def from_one_def every_def at_last_def at_first_def

subsection \<open>The array expressions, entry by entry\<close>

lemma nth_momentum_u:
  assumes "shape (N_x cfg) (N_y cfg) U1" "shape (N_x cfg) (N_y cfg) U"
    "shape (N_x cfg) (N_y cfg) E" "i < N_x cfg" "j < N_y cfg"
  shows "momentum_u cfg U1 U E ! i ! j =
     (if i < N_x cfg - 1
      then U ! i ! j - g cfg * dt cfg / dx cfg * (E ! Suc i ! j - E ! i ! j)
      else U1 ! i ! j)"
  using assms by (simp add: momentum_u_def shape_iff range_defs)

lemma nth_momentum_v:
  assumes "shape (N_x cfg) (N_y cfg) V1" "shape (N_x cfg) (N_y cfg) V"
    "shape (N_x cfg) (N_y cfg) E" "i < N_x cfg" "j < N_y cfg"
  shows "momentum_v cfg V1 V E ! i ! j =
     (if j < N_y cfg - 1
      then V ! i ! j - g cfg * dt cfg / dy cfg * (E ! i ! Suc j - E ! i ! j)
      else V1 ! i ! j)"
  using assms by (simp add: momentum_v_def shape_iff range_defs)

lemma nth_thickness_e:
  assumes "shape (N_x cfg) (N_y cfg) He" "shape (N_x cfg) (N_y cfg) U1"
    "shape (N_x cfg) (N_y cfg) E" "i < N_x cfg" "j < N_y cfg"
  shows "thickness_e cfg He U1 E ! i ! j =
     (if i < N_x cfg - 1
      then (if U1 ! i ! j > 0 then E ! i ! j + H cfg else E ! Suc i ! j + H cfg)
      else E ! i ! j + H cfg)"
proof -
  have "\<not> i < N_x cfg - 1 \<Longrightarrow> N_x cfg - 1 = i"
    using assms(4) by arith
  then show ?thesis
    using assms by (auto simp add: thickness_e_def upwind_x_def shape_iff range_defs)
qed

lemma nth_thickness_n:
  assumes "shape (N_x cfg) (N_y cfg) Hn" "shape (N_x cfg) (N_y cfg) V1"
    "shape (N_x cfg) (N_y cfg) E" "i < N_x cfg" "j < N_y cfg"
  shows "thickness_n cfg Hn V1 E ! i ! j =
     (if j < N_y cfg - 1
      then (if V1 ! i ! j > 0 then E ! i ! j + H cfg else E ! i ! Suc j + H cfg)
      else E ! i ! j + H cfg)"
proof -
  have "\<not> j < N_y cfg - 1 \<Longrightarrow> N_y cfg - 1 = j"
    using assms(5) by arith
  then show ?thesis
    using assms by (auto simp add: thickness_n_def upwind_y_def shape_iff range_defs)
qed

lemma nth_thickness_s:
  assumes "shape (N_x cfg) (N_y cfg) Hs" "shape (N_x cfg) (N_y cfg) V1"
    "shape (N_x cfg) (N_y cfg) E" "i < N_x cfg" "j < N_y cfg"
  shows "thickness_s cfg Hs V1 E ! i ! j =
     (if 1 \<le> j
      then (if V1 ! i ! (j - 1) > 0 then E ! i ! (j - 1) + H cfg else E ! i ! j + H cfg)
      else E ! i ! j + H cfg)"
  using assms by (auto simp add: thickness_s_def upwind_y_def shape_iff range_defs)

lemma nth_flux_y:
  assumes "shape (N_x cfg) (N_y cfg) Vh" "shape (N_x cfg) (N_y cfg) V1"
    "shape (N_x cfg) (N_y cfg) Hn" "shape (N_x cfg) (N_y cfg) Hs" "i < N_x cfg" "j < N_y cfg"
  shows "flux_y cfg Vh V1 Hn Hs ! i ! j =
     (if 1 \<le> j
      then V1 ! i ! j * Hn ! i ! j - V1 ! i ! (j - 1) * Hs ! i ! j
      else V1 ! i ! j * Hn ! i ! j)"
  using assms by (auto simp add: flux_y_def shape_iff range_defs)

lemma shape_steps:
  "shape (N_x cfg) (N_y cfg) A \<Longrightarrow> shape (N_x cfg) (N_y cfg) (momentum_u cfg A U E)"
  "shape (N_x cfg) (N_y cfg) A \<Longrightarrow> shape (N_x cfg) (N_y cfg) (momentum_v cfg A V E)"
  "shape (N_x cfg) (N_y cfg) A \<Longrightarrow> shape (N_x cfg) (N_y cfg) (thickness_e cfg A U1 E)"
  "shape (N_x cfg) (N_y cfg) A \<Longrightarrow> shape (N_x cfg) (N_y cfg) (thickness_w cfg A U1 E)"
  "shape (N_x cfg) (N_y cfg) A \<Longrightarrow> shape (N_x cfg) (N_y cfg) (thickness_n cfg A V1 E)"
  "shape (N_x cfg) (N_y cfg) A \<Longrightarrow> shape (N_x cfg) (N_y cfg) (thickness_s cfg A V1 E)"
  "shape (N_x cfg) (N_y cfg) A \<Longrightarrow> shape (N_x cfg) (N_y cfg) (flux_x cfg A U1 He Hw)"
  "shape (N_x cfg) (N_y cfg) A \<Longrightarrow> shape (N_x cfg) (N_y cfg) (flux_y cfg A V1 Hn Hs)"
  "shape (N_x cfg) (N_y cfg) A \<Longrightarrow> shape (N_x cfg) (N_y cfg) (continuity cfg A E Uh Vh)"
  "shape (N_x cfg) (N_y cfg) A \<Longrightarrow> shape (N_x cfg) (N_y cfg) (fill2 rs cs A c)"
  by (simp_all add: shape_iff momentum_u_def momentum_v_def thickness_e_def thickness_w_def thickness_n_def
      thickness_s_def flux_x_def flux_y_def continuity_def)

lemma nth_thickness_w:
  assumes "shape (N_x cfg) (N_y cfg) Hw" "shape (N_x cfg) (N_y cfg) U1"
    "shape (N_x cfg) (N_y cfg) E" "i < N_x cfg" "j < N_y cfg"
  shows "thickness_w cfg Hw U1 E ! i ! j =
     (if 1 \<le> i
      then (if U1 ! (i - 1) ! j > 0 then E ! (i - 1) ! j + H cfg else E ! i ! j + H cfg)
      else E ! i ! j + H cfg)"
  using assms by (auto simp add: thickness_w_def upwind_x_def shape_iff range_defs)

lemma nth_flux_x:
  assumes "shape (N_x cfg) (N_y cfg) Uh" "shape (N_x cfg) (N_y cfg) U1"
    "shape (N_x cfg) (N_y cfg) He" "shape (N_x cfg) (N_y cfg) Hw" "i < N_x cfg" "j < N_y cfg"
  shows "flux_x cfg Uh U1 He Hw ! i ! j =
     (if 1 \<le> i
      then U1 ! i ! j * He ! i ! j - U1 ! (i - 1) ! j * Hw ! i ! j
      else U1 ! i ! j * He ! i ! j)"
  using assms by (auto simp add: flux_x_def shape_iff range_defs)

lemma nth_continuity:
  assumes "shape (N_x cfg) (N_y cfg) E1" "shape (N_x cfg) (N_y cfg) E"
    "shape (N_x cfg) (N_y cfg) Uh" "shape (N_x cfg) (N_y cfg) Vh" "i < N_x cfg" "j < N_y cfg"
  shows "continuity cfg E1 E Uh Vh ! i ! j =
     E ! i ! j - dt cfg * (Uh ! i ! j / dx cfg + Vh ! i ! j / dy cfg)"
  using assms by (auto simp add: continuity_def shape_iff range_defs)

subsection \<open>The store: what one execution of the loop body does\<close>

lemma wr_fields [simp]:
  "fresh (wr a v s) = fresh s" "u_n (wr a v s) = u_n s" "u_np1 (wr a v s) = u_np1 s"
  "v_n (wr a v s) = v_n s" "v_np1 (wr a v s) = v_np1 s" "eta_n (wr a v s) = eta_n s"
  "eta_np1 (wr a v s) = eta_np1 s" "h_e (wr a v s) = h_e s" "h_w (wr a v s) = h_w s"
  "h_n (wr a v s) = h_n s" "h_s (wr a v s) = h_s s" "uhwe (wr a v s) = uhwe s"
  "vhns (wr a v s) = vhns s" "time_step (wr a v s) = time_step s"
  "eta_list (wr a v s) = eta_list s" "u_list (wr a v s) = u_list s"
  "v_list (wr a v s) = v_list s"
  by (simp_all add: wr_def)

lemma rd_wr: "rd (wr a v s) b = (if b = a then v else rd s b)"
  by (simp add: rd_def wr_def)

lemmas stmt_defs = update_u_np1_def update_v_np1_def compute_h_e_def compute_h_w_def
  compute_h_n_def compute_h_s_def compute_uhwe_def compute_vhns_def update_eta_np1_def

lemmas next_defs = next_u_def next_v_def next_h_e_def next_h_w_def next_h_n_def next_h_s_def
  next_uhwe_def next_vhns_def next_eta_def

lemma var_addrs_neq:
  assumes "distinct (var_addrs s)"
  shows "u_n s \<noteq> u_np1 s" "u_n s \<noteq> v_n s" "u_n s \<noteq> v_np1 s"
    "u_n s \<noteq> eta_n s" "u_n s \<noteq> eta_np1 s" "u_n s \<noteq> h_e s"
    "u_n s \<noteq> h_w s" "u_n s \<noteq> h_n s" "u_n s \<noteq> h_s s"
    "u_n s \<noteq> uhwe s" "u_n s \<noteq> vhns s" "u_np1 s \<noteq> u_n s"
    "u_np1 s \<noteq> v_n s" "u_np1 s \<noteq> v_np1 s" "u_np1 s \<noteq> eta_n s"
    "u_np1 s \<noteq> eta_np1 s" "u_np1 s \<noteq> h_e s" "u_np1 s \<noteq> h_w s"
    "u_np1 s \<noteq> h_n s" "u_np1 s \<noteq> h_s s" "u_np1 s \<noteq> uhwe s"
    "u_np1 s \<noteq> vhns s" "v_n s \<noteq> u_n s" "v_n s \<noteq> u_np1 s"
    "v_n s \<noteq> v_np1 s" "v_n s \<noteq> eta_n s" "v_n s \<noteq> eta_np1 s"
    "v_n s \<noteq> h_e s" "v_n s \<noteq> h_w s" "v_n s \<noteq> h_n s"
    "v_n s \<noteq> h_s s" "v_n s \<noteq> uhwe s" "v_n s \<noteq> vhns s"
    "v_np1 s \<noteq> u_n s" "v_np1 s \<noteq> u_np1 s" "v_np1 s \<noteq> v_n s"
    "v_np1 s \<noteq> eta_n s" "v_np1 s \<noteq> eta_np1 s" "v_np1 s \<noteq> h_e s"
    "v_np1 s \<noteq> h_w s" "v_np1 s \<noteq> h_n s" "v_np1 s \<noteq> h_s s"
    "v_np1 s \<noteq> uhwe s" "v_np1 s \<noteq> vhns s" "eta_n s \<noteq> u_n s"
    "eta_n s \<noteq> u_np1 s" "eta_n s \<noteq> v_n s" "eta_n s \<noteq> v_np1 s"
    "eta_n s \<noteq> eta_np1 s" "eta_n s \<noteq> h_e s" "eta_n s \<noteq> h_w s"
    "eta_n s \<noteq> h_n s" "eta_n s \<noteq> h_s s" "eta_n s \<noteq> uhwe s"
    "eta_n s \<noteq> vhns s" "eta_np1 s \<noteq> u_n s" "eta_np1 s \<noteq> u_np1 s"
    "eta_np1 s \<noteq> v_n s" "eta_np1 s \<noteq> v_np1 s" "eta_np1 s \<noteq> eta_n s"
    "eta_np1 s \<noteq> h_e s" "eta_np1 s \<noteq> h_w s" "eta_np1 s \<noteq> h_n s"
    "eta_np1 s \<noteq> h_s s" "eta_np1 s \<noteq> uhwe s" "eta_np1 s \<noteq> vhns s"
    "h_e s \<noteq> u_n s" "h_e s \<noteq> u_np1 s" "h_e s \<noteq> v_n s"
    "h_e s \<noteq> v_np1 s" "h_e s \<noteq> eta_n s" "h_e s \<noteq> eta_np1 s"
    "h_e s \<noteq> h_w s" "h_e s \<noteq> h_n s" "h_e s \<noteq> h_s s"
    "h_e s \<noteq> uhwe s" "h_e s \<noteq> vhns s" "h_w s \<noteq> u_n s"
    "h_w s \<noteq> u_np1 s" "h_w s \<noteq> v_n s" "h_w s \<noteq> v_np1 s"
    "h_w s \<noteq> eta_n s" "h_w s \<noteq> eta_np1 s" "h_w s \<noteq> h_e s"
    "h_w s \<noteq> h_n s" "h_w s \<noteq> h_s s" "h_w s \<noteq> uhwe s"
    "h_w s \<noteq> vhns s" "h_n s \<noteq> u_n s" "h_n s \<noteq> u_np1 s"
    "h_n s \<noteq> v_n s" "h_n s \<noteq> v_np1 s" "h_n s \<noteq> eta_n s"
    "h_n s \<noteq> eta_np1 s" "h_n s \<noteq> h_e s" "h_n s \<noteq> h_w s"
    "h_n s \<noteq> h_s s" "h_n s \<noteq> uhwe s" "h_n s \<noteq> vhns s"
    "h_s s \<noteq> u_n s" "h_s s \<noteq> u_np1 s" "h_s s \<noteq> v_n s"
    "h_s s \<noteq> v_np1 s" "h_s s \<noteq> eta_n s" "h_s s \<noteq> eta_np1 s"
    "h_s s \<noteq> h_e s" "h_s s \<noteq> h_w s" "h_s s \<noteq> h_n s"
    "h_s s \<noteq> uhwe s" "h_s s \<noteq> vhns s" "uhwe s \<noteq> u_n s"
    "uhwe s \<noteq> u_np1 s" "uhwe s \<noteq> v_n s" "uhwe s \<noteq> v_np1 s"
    "uhwe s \<noteq> eta_n s" "uhwe s \<noteq> eta_np1 s" "uhwe s \<noteq> h_e s"
    "uhwe s \<noteq> h_w s" "uhwe s \<noteq> h_n s" "uhwe s \<noteq> h_s s"
    "uhwe s \<noteq> vhns s" "vhns s \<noteq> u_n s" "vhns s \<noteq> u_np1 s"
    "vhns s \<noteq> v_n s" "vhns s \<noteq> v_np1 s" "vhns s \<noteq> eta_n s"
    "vhns s \<noteq> eta_np1 s" "vhns s \<noteq> h_e s" "vhns s \<noteq> h_w s"
    "vhns s \<noteq> h_n s" "vhns s \<noteq> h_s s" "vhns s \<noteq> uhwe s"
  using assms by (auto simp: var_addrs_def)

text \<open>The store before the rotation.\<close>

lemma before_rotation:
  assumes wf: "well_formed cfg s"
    and t: "eastern_boundary cfg s1 = Inr s2"
      "northern_boundary cfg (update_v_np1 cfg (update_u_np1 cfg s)) = Inr s1"
      "t = update_eta_np1 cfg (compute_vhns cfg (compute_uhwe cfg
       (compute_h_s cfg (compute_h_n cfg (compute_h_w cfg (compute_h_e cfg s2))))))"
  shows "rd t a =
      (if a = u_np1 s then next_u cfg s else if a = v_np1 s then next_v cfg s
       else if a = h_e s then next_h_e cfg s else if a = h_w s then next_h_w cfg s
       else if a = h_n s then next_h_n cfg s else if a = h_s s then next_h_s cfg s
       else if a = uhwe s then next_uhwe cfg s else if a = vhns s then next_vhns cfg s
       else if a = eta_np1 s then next_eta cfg s else rd s a)"
    and "fresh t = fresh s \<and> u_n t = u_n s \<and> u_np1 t = u_np1 s \<and> v_n t = v_n s \<and>
      v_np1 t = v_np1 s \<and> eta_n t = eta_n s \<and> eta_np1 t = eta_np1 s \<and> h_e t = h_e s \<and>
      h_w t = h_w s \<and> h_n t = h_n s \<and> h_s t = h_s s \<and> uhwe t = uhwe s \<and> vhns t = vhns s \<and>
      time_step t = time_step s \<and> eta_list t = eta_list s \<and> u_list t = u_list s \<and>
      v_list t = v_list s"
proof -
  have d: "distinct (var_addrs s)"
    using wf by (simp add: well_formed_def)
  note dd = var_addrs_neq [OF d]
  define q1 where "q1 = update_u_np1 cfg s"
  define q2 where "q2 = update_v_np1 cfg q1"
  have f2: "v_np1 q2 = v_np1 s" "u_np1 q2 = u_np1 s"
    by (simp_all add: q2_def q1_def stmt_defs)
  have "northern_boundary cfg q2 = Inr s1"
    using t(2) by (simp add: q1_def q2_def)
  then have s1: "s1 = wr (v_np1 s)
      (fill2 (every (N_x cfg)) (at_last (N_y cfg)) (rd q2 (v_np1 s)) 0) q2"
    by (auto simp: northern_boundary_def f2 split: if_splits)
  have f3: "u_np1 s1 = u_np1 s"
    by (simp add: s1 f2)
  have s2: "s2 = wr (u_np1 s)
      (fill2 (at_last (N_x cfg)) (every (N_y cfg)) (rd s1 (u_np1 s)) 0) s1"
    using t(1) by (auto simp: eastern_boundary_def f3 split: if_splits)
  define q5 where "q5 = compute_h_e cfg s2"
  define q6 where "q6 = compute_h_w cfg q5"
  define q7 where "q7 = compute_h_n cfg q6"
  define q8 where "q8 = compute_h_s cfg q7"
  define q9 where "q9 = compute_uhwe cfg q8"
  define q10 where "q10 = compute_vhns cfg q9"
  have tq: "t = update_eta_np1 cfg q10"
    by (simp add: t(3) q5_def q6_def q7_def q8_def q9_def q10_def)
  have r1: "\<And>a. rd q1 a = (if a = u_np1 s
      then momentum_u cfg (rd s (u_np1 s)) (rd s (u_n s)) (rd s (eta_n s)) else rd s a)"
    by (simp add: q1_def update_u_np1_def rd_wr)
  have r2: "\<And>a. rd q2 a = (if a = v_np1 s
      then momentum_v cfg (rd s (v_np1 s)) (rd s (v_n s)) (rd s (eta_n s)) else rd q1 a)"
    by (simp add: dd q2_def q1_def update_v_np1_def update_u_np1_def rd_wr)
  have r3: "\<And>a. rd s1 a = (if a = v_np1 s then next_v cfg s else rd q1 a)"
    by (simp add: s1 rd_wr r2 next_v_def)
  have r4: "\<And>a. rd s2 a = (if a = u_np1 s then next_u cfg s
      else if a = v_np1 s then next_v cfg s else rd s a)"
    by (simp add: dd s2 rd_wr r3 r1 next_u_def)
  have f4: "u_n s2 = u_n s" "u_np1 s2 = u_np1 s" "v_n s2 = v_n s" "v_np1 s2 = v_np1 s"
    "eta_n s2 = eta_n s" "eta_np1 s2 = eta_np1 s" "h_e s2 = h_e s" "h_w s2 = h_w s"
    "h_n s2 = h_n s" "h_s s2 = h_s s" "uhwe s2 = uhwe s" "vhns s2 = vhns s"
    by (simp_all add: s2 s1 q2_def q1_def stmt_defs)
  have r5: "\<And>a. rd q5 a = (if a = h_e s then next_h_e cfg s else rd s2 a)"
    by (simp add: dd q5_def compute_h_e_def rd_wr f4 r4 next_h_e_def)
  have r6: "\<And>a. rd q6 a = (if a = h_w s then next_h_w cfg s else rd q5 a)"
    by (simp add: dd q6_def q5_def stmt_defs rd_wr f4 r4 next_h_w_def)
  have r7: "\<And>a. rd q7 a = (if a = h_n s then next_h_n cfg s else rd q6 a)"
    by (simp add: dd q7_def q6_def q5_def stmt_defs rd_wr f4 r4 next_h_n_def)
  have r8: "\<And>a. rd q8 a = (if a = h_s s then next_h_s cfg s else rd q7 a)"
    by (simp add: dd q8_def q7_def q6_def q5_def stmt_defs rd_wr f4 r4 next_h_s_def)
  have f8: "u_n q8 = u_n s" "u_np1 q8 = u_np1 s" "v_n q8 = v_n s" "v_np1 q8 = v_np1 s"
    "eta_n q8 = eta_n s" "eta_np1 q8 = eta_np1 s" "h_e q8 = h_e s" "h_w q8 = h_w s"
    "h_n q8 = h_n s" "h_s q8 = h_s s" "uhwe q8 = uhwe s" "vhns q8 = vhns s"
    by (simp_all add: q8_def q7_def q6_def q5_def stmt_defs f4)
  have r9: "\<And>a. rd q9 a = (if a = uhwe s then next_uhwe cfg s else rd q8 a)"
    by (simp add: dd q9_def compute_uhwe_def rd_wr f8 r8 r7 r6 r5 r4 next_uhwe_def)
  have r10: "\<And>a. rd q10 a = (if a = vhns s then next_vhns cfg s else rd q9 a)"
    by (simp add: dd q10_def q9_def compute_vhns_def compute_uhwe_def rd_wr f8
        r8 r7 r6 r5 r4 next_vhns_def)
  have f10: "u_n q10 = u_n s" "u_np1 q10 = u_np1 s" "v_n q10 = v_n s" "v_np1 q10 = v_np1 s"
    "eta_n q10 = eta_n s" "eta_np1 q10 = eta_np1 s" "h_e q10 = h_e s" "h_w q10 = h_w s"
    "h_n q10 = h_n s" "h_s q10 = h_s s" "uhwe q10 = uhwe s" "vhns q10 = vhns s"
    by (simp_all add: q10_def q9_def stmt_defs f8)
  have r11: "\<And>a. rd t a = (if a = eta_np1 s then next_eta cfg s else rd q10 a)"
    by (simp add: dd tq update_eta_np1_def rd_wr f10 r10 r9 r8 r7 r6 r5 r4 next_eta_def)
  show "rd t a =
      (if a = u_np1 s then next_u cfg s else if a = v_np1 s then next_v cfg s
       else if a = h_e s then next_h_e cfg s else if a = h_w s then next_h_w cfg s
       else if a = h_n s then next_h_n cfg s else if a = h_s s then next_h_s cfg s
       else if a = uhwe s then next_uhwe cfg s else if a = vhns s then next_vhns cfg s
       else if a = eta_np1 s then next_eta cfg s else rd s a)"
    by (simp add: dd r11 r10 r9 r8 r7 r6 r5 r4)
  show "fresh t = fresh s \<and> u_n t = u_n s \<and> u_np1 t = u_np1 s \<and> v_n t = v_n s \<and>
      v_np1 t = v_np1 s \<and> eta_n t = eta_n s \<and> eta_np1 t = eta_np1 s \<and> h_e t = h_e s \<and>
      h_w t = h_w s \<and> h_n t = h_n s \<and> h_s t = h_s s \<and> uhwe t = uhwe s \<and> vhns t = vhns s \<and>
      time_step t = time_step s \<and> eta_list t = eta_list s \<and> u_list t = u_list s \<and>
      v_list t = v_list s"
    by (simp add: tq q10_def q9_def q8_def q7_def q6_def q5_def s2 s1 q2_def q1_def stmt_defs)
qed

lemma rotate_state_rd:
  assumes "u_np1 t < fresh t" "v_np1 t < fresh t" "eta_np1 t < fresh t"
  shows "rd (rotate_state t) a =
     (if a = fresh t then rd t (u_np1 t) else if a = Suc (fresh t) then rd t (v_np1 t)
      else if a = Suc (Suc (fresh t)) then rd t (eta_np1 t) else rd t a)"
  using assms by (auto simp: rotate_state_def alloc_def rd_def Let_def)

lemma rotate_state_fields:
  "fresh (rotate_state t) = fresh t + 3" "u_n (rotate_state t) = fresh t"
  "v_n (rotate_state t) = Suc (fresh t)" "eta_n (rotate_state t) = Suc (Suc (fresh t))"
  "u_np1 (rotate_state t) = u_np1 t" "v_np1 (rotate_state t) = v_np1 t"
  "eta_np1 (rotate_state t) = eta_np1 t" "h_e (rotate_state t) = h_e t"
  "h_w (rotate_state t) = h_w t" "h_n (rotate_state t) = h_n t" "h_s (rotate_state t) = h_s t"
  "uhwe (rotate_state t) = uhwe t" "vhns (rotate_state t) = vhns t"
  "time_step (rotate_state t) = time_step t" "eta_list (rotate_state t) = eta_list t"
  "u_list (rotate_state t) = u_list t" "v_list (rotate_state t) = v_list t"
  by (simp_all add: rotate_state_def alloc_def Let_def)

lemma sample_Inr:
  assumes "sample cfg t = Inr t'"
  shows "anim_interval cfg \<noteq> 0" "rd t' a = rd t a" "fresh t' = fresh t" "u_n t' = u_n t"
    "v_n t' = v_n t" "eta_n t' = eta_n t" "u_np1 t' = u_np1 t" "v_np1 t' = v_np1 t"
    "eta_np1 t' = eta_np1 t" "h_e t' = h_e t" "h_w t' = h_w t" "h_n t' = h_n t"
    "h_s t' = h_s t" "uhwe t' = uhwe t" "vhns t' = vhns t"
    "time_step t' = time_step t + 1"
    "u_list t' = (if (time_step t + 1) mod anim_interval cfg = 0
                  then u_list t @ [u_n t] else u_list t)"
    "v_list t' = (if (time_step t + 1) mod anim_interval cfg = 0
                  then v_list t @ [v_n t] else v_list t)"
    "eta_list t' = (if (time_step t + 1) mod anim_interval cfg = 0
                  then eta_list t @ [eta_n t] else eta_list t)"
  using assms by (auto simp: sample_def Let_def rd_def split: if_splits)

lemma loop_body_Inr:
  assumes "loop_body cfg s = Inr s'"
  obtains s1 s2 where
    "northern_boundary cfg (update_v_np1 cfg (update_u_np1 cfg s)) = Inr s1"
    "eastern_boundary cfg s1 = Inr s2"
    "sample cfg (rotate_state (update_eta_np1 cfg (compute_vhns cfg (compute_uhwe cfg
       (compute_h_s cfg (compute_h_n cfg (compute_h_w cfg (compute_h_e cfg s2)))))))) = Inr s'"
  using assms unfolding loop_body_def bind_err_def by (auto split: sum.splits)

lemma loop_body_nonzero:
  assumes "loop_body cfg s = Inr s'"
  shows "N_x cfg \<noteq> 0" "N_y cfg \<noteq> 0" "anim_interval cfg \<noteq> 0"
proof -
  from assms obtain s1 s2 where
    a: "northern_boundary cfg (update_v_np1 cfg (update_u_np1 cfg s)) = Inr s1" and
    b: "eastern_boundary cfg s1 = Inr s2" and
    c: "sample cfg (rotate_state (update_eta_np1 cfg (compute_vhns cfg (compute_uhwe cfg
       (compute_h_s cfg (compute_h_n cfg (compute_h_w cfg (compute_h_e cfg s2)))))))) = Inr s'"
    by (rule loop_body_Inr)
  show "N_y cfg \<noteq> 0" using a by (auto simp: northern_boundary_def split: if_splits)
  show "N_x cfg \<noteq> 0" using b by (auto simp: eastern_boundary_def split: if_splits)
  show "anim_interval cfg \<noteq> 0" using c by (rule sample_Inr(1))
qed

lemma loop_body_effect:
  assumes wf: "well_formed cfg s" and body: "loop_body cfg s = Inr s'"
  shows "rd s' a =
      (if a = u_np1 s then next_u cfg s else if a = v_np1 s then next_v cfg s
       else if a = h_e s then next_h_e cfg s else if a = h_w s then next_h_w cfg s
       else if a = h_n s then next_h_n cfg s else if a = h_s s then next_h_s cfg s
       else if a = uhwe s then next_uhwe cfg s else if a = vhns s then next_vhns cfg s
       else if a = eta_np1 s then next_eta cfg s
       else if a = fresh s then next_u cfg s else if a = Suc (fresh s) then next_v cfg s
       else if a = Suc (Suc (fresh s)) then next_eta cfg s else rd s a)"
    and "fresh s' = fresh s + 3" "u_n s' = fresh s" "v_n s' = Suc (fresh s)"
      "eta_n s' = Suc (Suc (fresh s))" "u_np1 s' = u_np1 s" "v_np1 s' = v_np1 s"
      "eta_np1 s' = eta_np1 s" "h_e s' = h_e s" "h_w s' = h_w s" "h_n s' = h_n s"
      "h_s s' = h_s s" "uhwe s' = uhwe s" "vhns s' = vhns s"
      "time_step s' = time_step s + 1"
      "u_list s' = (if (time_step s + 1) mod anim_interval cfg = 0
                    then u_list s @ [fresh s] else u_list s)"
      "v_list s' = (if (time_step s + 1) mod anim_interval cfg = 0
                    then v_list s @ [Suc (fresh s)] else v_list s)"
      "eta_list s' = (if (time_step s + 1) mod anim_interval cfg = 0
                    then eta_list s @ [Suc (Suc (fresh s))] else eta_list s)"
proof -
  from body obtain s1 s2 where
    a: "northern_boundary cfg (update_v_np1 cfg (update_u_np1 cfg s)) = Inr s1" and
    b: "eastern_boundary cfg s1 = Inr s2" and
    c: "sample cfg (rotate_state (update_eta_np1 cfg (compute_vhns cfg (compute_uhwe cfg
       (compute_h_s cfg (compute_h_n cfg (compute_h_w cfg (compute_h_e cfg s2)))))))) = Inr s'"
    by (rule loop_body_Inr)
  define t where "t = update_eta_np1 cfg (compute_vhns cfg (compute_uhwe cfg
       (compute_h_s cfg (compute_h_n cfg (compute_h_w cfg (compute_h_e cfg s2))))))"
  note rt = before_rotation(1) [OF wf b a t_def]
  note ft = before_rotation(2) [OF wf b a t_def]
  have c': "sample cfg (rotate_state t) = Inr s'"
    using c by (simp add: t_def)
  note sm = sample_Inr [OF c']
  have lt: "u_np1 s < fresh s" "v_np1 s < fresh s" "eta_np1 s < fresh s" "h_e s < fresh s"
    "h_w s < fresh s" "h_n s < fresh s" "h_s s < fresh s" "uhwe s < fresh s" "vhns s < fresh s"
    using wf by (simp_all add: well_formed_def var_addrs_def)
  have d: "distinct (var_addrs s)"
    using wf by (simp add: well_formed_def)
  note dd = var_addrs_neq [OF d]
  have rr: "\<And>a. rd (rotate_state t) a =
     (if a = fresh s then next_u cfg s else if a = Suc (fresh s) then next_v cfg s
      else if a = Suc (Suc (fresh s)) then next_eta cfg s else rd t a)"
    using lt by (subst rotate_state_rd) (simp_all add: ft rt dd)
  show "rd s' a =
      (if a = u_np1 s then next_u cfg s else if a = v_np1 s then next_v cfg s
       else if a = h_e s then next_h_e cfg s else if a = h_w s then next_h_w cfg s
       else if a = h_n s then next_h_n cfg s else if a = h_s s then next_h_s cfg s
       else if a = uhwe s then next_uhwe cfg s else if a = vhns s then next_vhns cfg s
       else if a = eta_np1 s then next_eta cfg s
       else if a = fresh s then next_u cfg s else if a = Suc (fresh s) then next_v cfg s
       else if a = Suc (Suc (fresh s)) then next_eta cfg s else rd s a)"
    using lt by (auto simp: sm(2) rr rt)
  show "fresh s' = fresh s + 3" "u_n s' = fresh s" "v_n s' = Suc (fresh s)"
      "eta_n s' = Suc (Suc (fresh s))" "u_np1 s' = u_np1 s" "v_np1 s' = v_np1 s"
      "eta_np1 s' = eta_np1 s" "h_e s' = h_e s" "h_w s' = h_w s" "h_n s' = h_n s"
      "h_s s' = h_s s" "uhwe s' = uhwe s" "vhns s' = vhns s"
      "time_step s' = time_step s + 1"
      "u_list s' = (if (time_step s + 1) mod anim_interval cfg = 0
                    then u_list s @ [fresh s] else u_list s)"
      "v_list s' = (if (time_step s + 1) mod anim_interval cfg = 0
                    then v_list s @ [Suc (fresh s)] else v_list s)"
      "eta_list s' = (if (time_step s + 1) mod anim_interval cfg = 0
                    then eta_list s @ [Suc (Suc (fresh s))] else eta_list s)"
    by (simp_all add: sm rotate_state_fields ft)
qed

lemma well_formed_shape:
  assumes "well_formed cfg s"
  shows "shape (N_x cfg) (N_y cfg) (rd s (u_n s))" "shape (N_x cfg) (N_y cfg) (rd s (u_np1 s))"
    "shape (N_x cfg) (N_y cfg) (rd s (v_n s))" "shape (N_x cfg) (N_y cfg) (rd s (v_np1 s))"
    "shape (N_x cfg) (N_y cfg) (rd s (eta_n s))" "shape (N_x cfg) (N_y cfg) (rd s (eta_np1 s))"
    "shape (N_x cfg) (N_y cfg) (rd s (h_e s))" "shape (N_x cfg) (N_y cfg) (rd s (h_w s))"
    "shape (N_x cfg) (N_y cfg) (rd s (h_n s))" "shape (N_x cfg) (N_y cfg) (rd s (h_s s))"
    "shape (N_x cfg) (N_y cfg) (rd s (uhwe s))" "shape (N_x cfg) (N_y cfg) (rd s (vhns s))"
  using assms by (simp_all add: well_formed_def var_addrs_def)

lemma well_formed_fresh:
  assumes "well_formed cfg s"
  shows "u_n s < fresh s" "u_np1 s < fresh s" "v_n s < fresh s" "v_np1 s < fresh s"
    "eta_n s < fresh s" "eta_np1 s < fresh s" "h_e s < fresh s" "h_w s < fresh s"
    "h_n s < fresh s" "h_s s < fresh s" "uhwe s < fresh s" "vhns s < fresh s"
  using assms by (simp_all add: well_formed_def var_addrs_def)

lemma shape_next:
  assumes "well_formed cfg s"
  shows "shape (N_x cfg) (N_y cfg) (next_u cfg s)" "shape (N_x cfg) (N_y cfg) (next_v cfg s)"
    "shape (N_x cfg) (N_y cfg) (next_h_e cfg s)" "shape (N_x cfg) (N_y cfg) (next_h_w cfg s)"
    "shape (N_x cfg) (N_y cfg) (next_h_n cfg s)" "shape (N_x cfg) (N_y cfg) (next_h_s cfg s)"
    "shape (N_x cfg) (N_y cfg) (next_uhwe cfg s)" "shape (N_x cfg) (N_y cfg) (next_vhns cfg s)"
    "shape (N_x cfg) (N_y cfg) (next_eta cfg s)"
  using well_formed_shape [OF assms] by (simp_all add: next_defs shape_steps)

lemma nth_next_u:
  assumes "well_formed cfg s" "i < N_x cfg" "j < N_y cfg"
  shows "next_u cfg s ! i ! j =
     (if i < N_x cfg - 1
      then rd s (u_n s) ! i ! j
           - g cfg * dt cfg / dx cfg * (rd s (eta_n s) ! Suc i ! j - rd s (eta_n s) ! i ! j)
      else 0)"
proof -
  note sh = well_formed_shape [OF assms(1)]
  have m: "shape (N_x cfg) (N_y cfg)
      (momentum_u cfg (rd s (u_np1 s)) (rd s (u_n s)) (rd s (eta_n s)))"
    using sh by (simp add: shape_steps)
  have "next_u cfg s ! i ! j =
     (if i = N_x cfg - 1 then 0
      else momentum_u cfg (rd s (u_np1 s)) (rd s (u_n s)) (rd s (eta_n s)) ! i ! j)"
    using m assms(2,3) by (auto simp: next_u_def shape_iff range_defs)
  then show ?thesis
    using assms(2,3) sh by (auto simp: nth_momentum_u)
qed

lemma nth_next_v:
  assumes "well_formed cfg s" "i < N_x cfg" "j < N_y cfg"
  shows "next_v cfg s ! i ! j =
     (if j < N_y cfg - 1
      then rd s (v_n s) ! i ! j
           - g cfg * dt cfg / dy cfg * (rd s (eta_n s) ! i ! Suc j - rd s (eta_n s) ! i ! j)
      else 0)"
proof -
  note sh = well_formed_shape [OF assms(1)]
  have m: "shape (N_x cfg) (N_y cfg)
      (momentum_v cfg (rd s (v_np1 s)) (rd s (v_n s)) (rd s (eta_n s)))"
    using sh by (simp add: shape_steps)
  have "next_v cfg s ! i ! j =
     (if j = N_y cfg - 1 then 0
      else momentum_v cfg (rd s (v_np1 s)) (rd s (v_n s)) (rd s (eta_n s)) ! i ! j)"
    using m assms(2,3) by (auto simp: next_v_def shape_iff range_defs)
  then show ?thesis
    using assms(2,3) sh by (auto simp: nth_momentum_v)
qed

lemma loop_body_vars:
  assumes wf: "well_formed cfg s" and body: "loop_body cfg s = Inr s'"
  shows "rd s' (u_n s') = next_u cfg s" "rd s' (u_np1 s') = next_u cfg s"
    "rd s' (v_n s') = next_v cfg s" "rd s' (v_np1 s') = next_v cfg s"
    "rd s' (eta_n s') = next_eta cfg s" "rd s' (eta_np1 s') = next_eta cfg s"
    "rd s' (h_e s') = next_h_e cfg s" "rd s' (h_w s') = next_h_w cfg s"
    "rd s' (h_n s') = next_h_n cfg s" "rd s' (h_s s') = next_h_s cfg s"
    "rd s' (uhwe s') = next_uhwe cfg s" "rd s' (vhns s') = next_vhns cfg s"
proof -
  note e = loop_body_effect [OF wf body]
  note lt = well_formed_fresh [OF wf]
  have d: "distinct (var_addrs s)"
    using wf by (simp add: well_formed_def)
  note dd = var_addrs_neq [OF d]
  show "rd s' (u_n s') = next_u cfg s" "rd s' (u_np1 s') = next_u cfg s"
    "rd s' (v_n s') = next_v cfg s" "rd s' (v_np1 s') = next_v cfg s"
    "rd s' (eta_n s') = next_eta cfg s" "rd s' (eta_np1 s') = next_eta cfg s"
    "rd s' (h_e s') = next_h_e cfg s" "rd s' (h_w s') = next_h_w cfg s"
    "rd s' (h_n s') = next_h_n cfg s" "rd s' (h_s s') = next_h_s cfg s"
    "rd s' (uhwe s') = next_uhwe cfg s" "rd s' (vhns s') = next_vhns cfg s"
    using lt by (simp_all add: e dd)
qed

lemma loop_body_total:
  assumes "N_x cfg \<noteq> 0" "N_y cfg \<noteq> 0" "anim_interval cfg \<noteq> 0"
  shows "loop_body cfg s = Inr (projr (loop_body cfg s))"
  using assms
  by (simp add: loop_body_def bind_err_def northern_boundary_def eastern_boundary_def
      sample_def Let_def)

subsection \<open>The new buffer contents, entry by entry\<close>

lemma nth_next_h_e:
  assumes "well_formed cfg s" "i < N_x cfg" "j < N_y cfg"
  shows "next_h_e cfg s ! i ! j =
     (if i < N_x cfg - 1
      then (if 0 < next_u cfg s ! i ! j then rd s (eta_n s) ! i ! j + H cfg
            else rd s (eta_n s) ! Suc i ! j + H cfg)
      else rd s (eta_n s) ! i ! j + H cfg)"
  unfolding next_h_e_def
  using well_formed_shape [OF assms(1)] shape_next [OF assms(1)] assms(2,3)
  by (simp add: nth_thickness_e)

lemma nth_next_h_w:
  assumes "well_formed cfg s" "i < N_x cfg" "j < N_y cfg"
  shows "next_h_w cfg s ! i ! j =
     (if 1 \<le> i
      then (if 0 < next_u cfg s ! (i - 1) ! j then rd s (eta_n s) ! (i - 1) ! j + H cfg
            else rd s (eta_n s) ! i ! j + H cfg)
      else rd s (eta_n s) ! i ! j + H cfg)"
  unfolding next_h_w_def
  using well_formed_shape [OF assms(1)] shape_next [OF assms(1)] assms(2,3)
  by (simp add: nth_thickness_w)

lemma nth_next_h_n:
  assumes "well_formed cfg s" "i < N_x cfg" "j < N_y cfg"
  shows "next_h_n cfg s ! i ! j =
     (if j < N_y cfg - 1
      then (if 0 < next_v cfg s ! i ! j then rd s (eta_n s) ! i ! j + H cfg
            else rd s (eta_n s) ! i ! Suc j + H cfg)
      else rd s (eta_n s) ! i ! j + H cfg)"
  unfolding next_h_n_def
  using well_formed_shape [OF assms(1)] shape_next [OF assms(1)] assms(2,3)
  by (simp add: nth_thickness_n)

lemma nth_next_h_s:
  assumes "well_formed cfg s" "i < N_x cfg" "j < N_y cfg"
  shows "next_h_s cfg s ! i ! j =
     (if 1 \<le> j
      then (if 0 < next_v cfg s ! i ! (j - 1) then rd s (eta_n s) ! i ! (j - 1) + H cfg
            else rd s (eta_n s) ! i ! j + H cfg)
      else rd s (eta_n s) ! i ! j + H cfg)"
  unfolding next_h_s_def
  using well_formed_shape [OF assms(1)] shape_next [OF assms(1)] assms(2,3)
  by (simp add: nth_thickness_s)

lemma nth_next_uhwe:
  assumes "well_formed cfg s" "i < N_x cfg" "j < N_y cfg"
  shows "next_uhwe cfg s ! i ! j =
     (if 1 \<le> i
      then next_u cfg s ! i ! j * next_h_e cfg s ! i ! j
           - next_u cfg s ! (i - 1) ! j * next_h_w cfg s ! i ! j
      else next_u cfg s ! i ! j * next_h_e cfg s ! i ! j)"
  unfolding next_uhwe_def
  using well_formed_shape [OF assms(1)] shape_next [OF assms(1)] assms(2,3)
  by (simp add: nth_flux_x)

lemma nth_next_vhns:
  assumes "well_formed cfg s" "i < N_x cfg" "j < N_y cfg"
  shows "next_vhns cfg s ! i ! j =
     (if 1 \<le> j
      then next_v cfg s ! i ! j * next_h_n cfg s ! i ! j
           - next_v cfg s ! i ! (j - 1) * next_h_s cfg s ! i ! j
      else next_v cfg s ! i ! j * next_h_n cfg s ! i ! j)"
  unfolding next_vhns_def
  using well_formed_shape [OF assms(1)] shape_next [OF assms(1)] assms(2,3)
  by (simp add: nth_flux_y)

lemma nth_next_eta:
  assumes "well_formed cfg s" "i < N_x cfg" "j < N_y cfg"
  shows "next_eta cfg s ! i ! j =
     rd s (eta_n s) ! i ! j
     - dt cfg * (next_uhwe cfg s ! i ! j / dx cfg + next_vhns cfg s ! i ! j / dy cfg)"
  unfolding next_eta_def
  using well_formed_shape [OF assms(1)] shape_next [OF assms(1)] assms(2,3)
  by (simp add: nth_continuity)

subsection \<open>The flux divergence telescopes\<close>

lemma np_sum_shape:
  assumes "shape n m a"
  shows "np_sum a = (\<Sum>i<n. \<Sum>j<m. a ! i ! j)"
proof -
  have len: "length a = n" and row: "\<And>i. i < n \<Longrightarrow> length (a ! i) = m"
    using assms by (simp_all add: shape_iff)
  have "np_sum a = (\<Sum>i = 0..<n. sum_list (a ! i))"
    by (simp add: np_sum_def sum_list_sum_nth len)
  also have "\<dots> = (\<Sum>i = 0..<n. \<Sum>j = 0..<m. a ! i ! j)"
    by (rule sum.cong) (simp_all add: sum_list_sum_nth row)
  finally show ?thesis
    by (simp add: atLeast0LessThan)
qed

lemma sum_telescope_faces:
  fixes f :: "nat \<Rightarrow> real"
  shows "(\<Sum>i<n. f i - (if 1 \<le> i then f (i - 1) else 0)) = (if n = 0 then 0 else f (n - 1))"
  by (induction n) simp_all

lemma next_h_w_eq_next_h_e:
  assumes "well_formed cfg s" "1 \<le> i" "i < N_x cfg" "j < N_y cfg"
  shows "next_h_w cfg s ! i ! j = next_h_e cfg s ! (i - 1) ! j"
proof -
  have "i - 1 < N_x cfg" "i - 1 < N_x cfg - 1" "Suc (i - 1) = i"
    using assms(2,3) by arith+
  then show ?thesis
    using nth_next_h_w [OF assms(1,3,4)] nth_next_h_e [OF assms(1) _ assms(4), of "i - 1"]
      assms(2)
    by simp
qed

lemma next_h_s_eq_next_h_n:
  assumes "well_formed cfg s" "1 \<le> j" "i < N_x cfg" "j < N_y cfg"
  shows "next_h_s cfg s ! i ! j = next_h_n cfg s ! i ! (j - 1)"
proof -
  have "j - 1 < N_y cfg" "j - 1 < N_y cfg - 1" "Suc (j - 1) = j"
    using assms(2,4) by arith+
  then show ?thesis
    using nth_next_h_s [OF assms(1,3,4)] nth_next_h_n [OF assms(1,3), of "j - 1"]
      assms(2)
    by simp
qed

lemma sum_next_uhwe_column:
  assumes wf: "well_formed cfg s" and j: "j < N_y cfg"
  shows "(\<Sum>i<N_x cfg. next_uhwe cfg s ! i ! j) = 0"
proof -
  define f where "f i = next_u cfg s ! i ! j * next_h_e cfg s ! i ! j" for i
  have "(\<Sum>i<N_x cfg. next_uhwe cfg s ! i ! j)
      = (\<Sum>i<N_x cfg. f i - (if 1 \<le> i then f (i - 1) else 0))"
  proof (rule sum.cong)
    fix i assume "i \<in> {..<N_x cfg}"
    then have i: "i < N_x cfg" by simp
    show "next_uhwe cfg s ! i ! j = f i - (if 1 \<le> i then f (i - 1) else 0)"
      using nth_next_uhwe [OF wf i j] next_h_w_eq_next_h_e [OF wf _ i j]
      by (simp add: f_def)
  qed simp
  also have "\<dots> = (if N_x cfg = 0 then 0 else f (N_x cfg - 1))"
    by (rule sum_telescope_faces)
  also have "\<dots> = 0"
    using nth_next_u [OF wf _ j, of "N_x cfg - 1"] by (simp add: f_def)
  finally show ?thesis .
qed

lemma sum_next_vhns_row:
  assumes wf: "well_formed cfg s" and i: "i < N_x cfg"
  shows "(\<Sum>j<N_y cfg. next_vhns cfg s ! i ! j) = 0"
proof -
  define f where "f j = next_v cfg s ! i ! j * next_h_n cfg s ! i ! j" for j
  have "(\<Sum>j<N_y cfg. next_vhns cfg s ! i ! j)
      = (\<Sum>j<N_y cfg. f j - (if 1 \<le> j then f (j - 1) else 0))"
  proof (rule sum.cong)
    fix j assume "j \<in> {..<N_y cfg}"
    then have j: "j < N_y cfg" by simp
    show "next_vhns cfg s ! i ! j = f j - (if 1 \<le> j then f (j - 1) else 0)"
      using nth_next_vhns [OF wf i j] next_h_s_eq_next_h_n [OF wf _ i j]
      by (simp add: f_def)
  qed simp
  also have "\<dots> = (if N_y cfg = 0 then 0 else f (N_y cfg - 1))"
    by (rule sum_telescope_faces)
  also have "\<dots> = 0"
    using nth_next_v [OF wf i, of "N_y cfg - 1"] by (simp add: f_def)
  finally show ?thesis .
qed

lemma np_sum_next_eta:
  assumes wf: "well_formed cfg s"
  shows "np_sum (next_eta cfg s) = np_sum (rd s (eta_n s))"
proof -
  let ?n = "N_x cfg" and ?m = "N_y cfg"
  let ?E = "rd s (eta_n s)" and ?U = "next_uhwe cfg s" and ?V = "next_vhns cfg s"
  have "np_sum (next_eta cfg s) = (\<Sum>i<?n. \<Sum>j<?m. next_eta cfg s ! i ! j)"
    using shape_next(9) [OF wf] by (rule np_sum_shape)
  also have "\<dots> = (\<Sum>i<?n. \<Sum>j<?m.
      ?E ! i ! j - dt cfg * (?U ! i ! j / dx cfg + ?V ! i ! j / dy cfg))"
    by (intro sum.cong refl) (simp add: nth_next_eta [OF wf])
  also have "\<dots> = (\<Sum>i<?n. \<Sum>j<?m. ?E ! i ! j)
      - dt cfg * ((\<Sum>i<?n. \<Sum>j<?m. ?U ! i ! j) / dx cfg
                  + (\<Sum>i<?n. \<Sum>j<?m. ?V ! i ! j) / dy cfg)"
    by (simp add: sum_subtractf sum_distrib_left [symmetric] sum.distrib
        sum_divide_distrib [symmetric])
  also have "(\<Sum>i<?n. \<Sum>j<?m. ?U ! i ! j) = (\<Sum>j<?m. \<Sum>i<?n. ?U ! i ! j)"
    by (rule sum.swap)
  also have "\<dots> = 0"
    by (simp add: sum_next_uhwe_column [OF wf])
  also have "(\<Sum>i<?n. \<Sum>j<?m. ?V ! i ! j) = 0"
    by (simp add: sum_next_vhns_row [OF wf])
  also have "(\<Sum>i<?n. \<Sum>j<?m. ?E ! i ! j) = np_sum ?E"
    using well_formed_shape(5) [OF wf] by (rule np_sum_shape [symmetric])
  finally show ?thesis by simp
qed

subsection \<open>Well-formedness is an invariant\<close>

lemma well_formed_loop_body:
  assumes wf: "well_formed cfg s" and body: "loop_body cfg s = Inr s'"
  shows "well_formed cfg s'"
proof -
  note e = loop_body_effect(2-) [OF wf body]
  note v = loop_body_vars [OF wf body]
  note sh = shape_next [OF wf]
  note lt = well_formed_fresh [OF wf]
  have d: "distinct (var_addrs s)"
    using wf by (simp add: well_formed_def)
  note dd = var_addrs_neq [OF d]
  have ne: "fresh s \<noteq> u_np1 s" "fresh s \<noteq> v_np1 s" "fresh s \<noteq> eta_np1 s" "fresh s \<noteq> h_e s"
    "fresh s \<noteq> h_w s" "fresh s \<noteq> h_n s" "fresh s \<noteq> h_s s" "fresh s \<noteq> uhwe s"
    "fresh s \<noteq> vhns s"
    "Suc (fresh s) \<noteq> u_np1 s" "Suc (fresh s) \<noteq> v_np1 s" "Suc (fresh s) \<noteq> eta_np1 s"
    "Suc (fresh s) \<noteq> h_e s" "Suc (fresh s) \<noteq> h_w s" "Suc (fresh s) \<noteq> h_n s"
    "Suc (fresh s) \<noteq> h_s s" "Suc (fresh s) \<noteq> uhwe s" "Suc (fresh s) \<noteq> vhns s"
    "Suc (Suc (fresh s)) \<noteq> u_np1 s" "Suc (Suc (fresh s)) \<noteq> v_np1 s"
    "Suc (Suc (fresh s)) \<noteq> eta_np1 s" "Suc (Suc (fresh s)) \<noteq> h_e s"
    "Suc (Suc (fresh s)) \<noteq> h_w s" "Suc (Suc (fresh s)) \<noteq> h_n s"
    "Suc (Suc (fresh s)) \<noteq> h_s s" "Suc (Suc (fresh s)) \<noteq> uhwe s"
    "Suc (Suc (fresh s)) \<noteq> vhns s"
    using lt by simp_all
  have 1: "distinct (var_addrs s')"
    unfolding var_addrs_def e(2-13) by (simp add: dd ne ne [symmetric])
  have 2: "list_all (\<lambda>a. a < fresh s' \<and> shape (N_x cfg) (N_y cfg) (rd s' a)) (var_addrs s')"
    unfolding var_addrs_def list.pred_inject v
    unfolding e(1-13) using lt by (simp add: sh)
  have old: "list_all (\<lambda>a. a < fresh s \<and> a \<notin> set (buffers s))
      (u_list s @ v_list s @ eta_list s)"
    using wf by (simp add: well_formed_def)
  have b: "buffers s' = buffers s"
    by (simp add: buffers_def e(2-13))
  have fr: "fresh s' = fresh s + 3"
    by (rule e(1))
  have nb: "fresh s \<notin> set (buffers s)" "Suc (fresh s) \<notin> set (buffers s)"
    "Suc (Suc (fresh s)) \<notin> set (buffers s)"
    by (simp_all add: buffers_def ne)
  have 3: "list_all (\<lambda>a. a < fresh s' \<and> a \<notin> set (buffers s'))
      (u_list s' @ v_list s' @ eta_list s')"
    using old nb unfolding b fr e(15-17)
    by (auto simp: list_all_iff intro: trans_less_add1)
  show ?thesis
    using 1 2 3 by (simp add: well_formed_def)
qed


lemma shape_zeros [simp]: "shape n m (zeros n m)"
  by (simp add: shape_iff zeros_def)

lemma nth_X_grid:
  "i < N_x cfg \<Longrightarrow> j < N_y cfg \<Longrightarrow> X_grid cfg ! i ! j = x_pts cfg ! i"
  by (simp add: X_grid_def np_transpose_def meshgrid_def y_pts_def linspace_def)

lemma nth_Y_grid:
  "i < N_x cfg \<Longrightarrow> j < N_y cfg \<Longrightarrow> Y_grid cfg ! i ! j = y_pts cfg ! j"
  by (simp add: Y_grid_def np_transpose_def meshgrid_def x_pts_def y_pts_def linspace_def)

lemma shape_grids:
  "shape (N_x cfg) (N_y cfg) (X_grid cfg)" "shape (N_x cfg) (N_y cfg) (Y_grid cfg)"
  by (simp_all add: shape_iff X_grid_def Y_grid_def np_transpose_def)

lemma shape_eta_initial: "shape (N_x cfg) (N_y cfg) (eta_initial cfg)"
  using shape_grids [of cfg] by (simp add: shape_iff eta_initial_def)

lemma nth_eta_initial:
  assumes "i < N_x cfg" "j < N_y cfg"
  shows "eta_initial cfg ! i ! j =
     exp (- ((x_pts cfg ! i - L_x cfg / (27 / 10))\<^sup>2 / (2 * 50000\<^sup>2)
             + (y_pts cfg ! j - L_y cfg / 4)\<^sup>2 / (2 * 50000\<^sup>2)))"
  using shape_grids [of cfg] assms
  by (simp add: shape_iff eta_initial_def nth_X_grid nth_Y_grid)

lemma well_formed_initial_state: "well_formed cfg (initial_state cfg)"
  by (simp add: well_formed_def var_addrs_def buffers_def initial_state_def rd_def
      shape_eta_initial)

lemma pre_loop_Inr:
  assumes "pre_loop cfg s = Inr s'"
  shows "N_x cfg \<noteq> 0" "N_y cfg \<noteq> 0"
    "s' = wr (v_np1 s) (fill2 (every (N_x cfg)) (at_last (N_y cfg))
             (rd (wr (u_np1 s) (fill2 (at_last (N_x cfg)) (every (N_y cfg))
                (rd (update_v_np1 cfg (update_u_np1 cfg s)) (u_np1 s)) 0)
                (update_v_np1 cfg (update_u_np1 cfg s))) (v_np1 s)) 0)
            (wr (u_np1 s) (fill2 (at_last (N_x cfg)) (every (N_y cfg))
                (rd (update_v_np1 cfg (update_u_np1 cfg s)) (u_np1 s)) 0)
                (update_v_np1 cfg (update_u_np1 cfg s)))"
  using assms
  by (auto simp: pre_loop_def bind_err_def eastern_boundary_def northern_boundary_def
      stmt_defs split: if_splits)

subsection \<open>Iterating the loop body\<close>

lemma bind_err_simps [simp]:
  "bind_err (Inl e) f = Inl e" "bind_err (Inr a) f = f a"
  by (simp_all add: bind_err_def)

lemma bind_err_Inr_iff:
  "bind_err r f = Inr b \<longleftrightarrow> (\<exists>a. r = Inr a \<and> f a = Inr b)"
  by (cases r) simp_all

lemma iterate_body_Suc_last:
  "iterate_body (Suc k) cfg s = bind_err (iterate_body k cfg s) (loop_body cfg)"
proof (induction k arbitrary: s)
  case 0
  show ?case by (cases "loop_body cfg s") simp_all
next
  case (Suc k)
  show ?case
  proof (cases "loop_body cfg s")
    case (Inl e)
    then show ?thesis by simp
  next
    case (Inr s1)
    then show ?thesis using Suc.IH [of s1] by simp
  qed
qed

lemma iterate_body_well_formed:
  "well_formed cfg s \<Longrightarrow> iterate_body k cfg s = Inr s' \<Longrightarrow> well_formed cfg s'"
proof (induction k arbitrary: s)
  case 0
  then show ?case by simp
next
  case (Suc k)
  from Suc.prems(2) obtain s1 where
    s1: "loop_body cfg s = Inr s1" and rest: "iterate_body k cfg s1 = Inr s'"
    by (auto simp: bind_err_Inr_iff)
  from well_formed_loop_body [OF Suc.prems(1) s1] rest show ?case
    by (rule Suc.IH)
qed

lemma iterate_body_ex:
  assumes "N_x cfg \<noteq> 0" "N_y cfg \<noteq> 0" "anim_interval cfg \<noteq> 0"
  shows "\<exists>s'. iterate_body k cfg s = Inr s'"
proof (induction k arbitrary: s)
  case 0
  show ?case by simp
next
  case (Suc k)
  from assms have "loop_body cfg s = Inr (projr (loop_body cfg s))"
    by (rule loop_body_total)
  then obtain s1 where s1: "loop_body cfg s = Inr s1" ..
  from Suc.IH [of s1] show ?case
    by (simp add: s1)
qed

lemma iterate_body_total:
  assumes "N_x cfg \<noteq> 0" "N_y cfg \<noteq> 0" "anim_interval cfg \<noteq> 0"
  shows "iterate_body k cfg s = Inr (projr (iterate_body k cfg s))"
proof -
  from iterate_body_ex [OF assms] obtain s' where "iterate_body k cfg s = Inr s'" ..
  then show ?thesis by simp
qed

lemma time_step_loop_body:
  assumes "loop_body cfg s = Inr s'"
  shows "time_step s' = time_step s + 1"
proof -
  from assms obtain s1 s2 where
    a: "northern_boundary cfg (update_v_np1 cfg (update_u_np1 cfg s)) = Inr s1" and
    b: "eastern_boundary cfg s1 = Inr s2" and
    c: "sample cfg (rotate_state (update_eta_np1 cfg (compute_vhns cfg (compute_uhwe cfg
       (compute_h_s cfg (compute_h_n cfg (compute_h_w cfg (compute_h_e cfg s2)))))))) = Inr s'"
    by (rule loop_body_Inr)
  have "time_step s1 = time_step s"
    using a by (auto simp: northern_boundary_def stmt_defs split: if_splits)
  moreover have "time_step s2 = time_step s1"
    using b by (auto simp: eastern_boundary_def split: if_splits)
  moreover have "time_step s' = time_step s2 + 1"
    using sample_Inr(16) [OF c] by (simp add: rotate_state_fields stmt_defs)
  ultimately show ?thesis by simp
qed

lemma main_loop_iterate:
  "main_loop cfg s = iterate_body (nat (max_time_step cfg - time_step s)) cfg s"
proof (induction cfg s rule: main_loop.induct)
  case (1 cfg s)
  show ?case
  proof (cases "time_step s < max_time_step cfg")
    case False
    then show ?thesis by (simp add: main_loop.simps [of cfg s])
  next
    case True
    then have n: "nat (max_time_step cfg - time_step s)
        = Suc (nat (max_time_step cfg - (time_step s + 1)))"
      by simp
    show ?thesis
    proof (cases "loop_body cfg s")
      case (Inl e)
      then show ?thesis
        using True by (simp add: main_loop.simps [of cfg s] n del: nat_diff_distrib)
    next
      case (Inr s1)
      have ts: "time_step s1 = time_step s + 1"
        using Inr by (rule time_step_loop_body)
      show ?thesis
        using True Inr "1.IH" [OF True Inr]
        by (simp add: main_loop.simps [of cfg s] n ts)
    qed
  qed
qed

lemma time_step_iterate_body:
  "iterate_body k cfg s = Inr s' \<Longrightarrow> time_step s' = time_step s + int k"
proof (induction k arbitrary: s)
  case 0
  then show ?case by simp
next
  case (Suc k)
  from Suc.prems obtain s1 where
    s1: "loop_body cfg s = Inr s1" and rest: "iterate_body k cfg s1 = Inr s'"
    by (auto simp: bind_err_Inr_iff)
  from Suc.IH [OF rest] time_step_loop_body [OF s1] show ?case by simp
qed

lemma pre_loop_total:
  assumes "N_x cfg \<noteq> 0" "N_y cfg \<noteq> 0"
  shows "\<exists>s'. pre_loop cfg s = Inr s'"
  using assms by (simp add: pre_loop_def eastern_boundary_def northern_boundary_def)

lemma pre_loop_fields:
  assumes "pre_loop cfg s = Inr s'"
  shows "fresh s' = fresh s" "u_n s' = u_n s" "u_np1 s' = u_np1 s" "v_n s' = v_n s"
    "v_np1 s' = v_np1 s" "eta_n s' = eta_n s" "eta_np1 s' = eta_np1 s" "h_e s' = h_e s"
    "h_w s' = h_w s" "h_n s' = h_n s" "h_s s' = h_s s" "uhwe s' = uhwe s" "vhns s' = vhns s"
    "time_step s' = time_step s" "eta_list s' = eta_list s" "u_list s' = u_list s"
    "v_list s' = v_list s"
  unfolding pre_loop_Inr(3) [OF assms] by (simp_all add: stmt_defs)

subsection \<open>Sampled references are never written again\<close>

lemma loop_body_frame:
  assumes wf: "well_formed cfg s" and body: "loop_body cfg s = Inr s'"
    and a: "a < fresh s" "a \<notin> set (buffers s)"
  shows "rd s' a = rd s a"
  using a unfolding loop_body_effect(1) [OF wf body] by (auto simp: buffers_def)

lemma loop_body_lists:
  assumes wf: "well_formed cfg s" and body: "loop_body cfg s = Inr s'"
  shows "take (length (u_list s)) (u_list s') = u_list s"
    "take (length (v_list s)) (v_list s') = v_list s"
    "take (length (eta_list s)) (eta_list s') = eta_list s"
    "buffers s' = buffers s" "fresh s \<le> fresh s'"
  by (simp_all add: loop_body_effect(2-) [OF wf body] buffers_def)

lemma take_take_prefix:
  assumes "take (length xs) ys = xs" "take (length ys) zs = ys"
  shows "take (length xs) zs = xs"
proof -
  have "length xs = length (take (length xs) ys)"
    by (simp only: assms(1))
  then have "length xs \<le> length ys"
    by simp
  then have "take (length xs) (take (length ys) zs) = take (length xs) zs"
    by (simp add: min_def)
  then show ?thesis
    using assms by simp
qed

lemma iterate_body_frame:
  assumes "well_formed cfg s" "iterate_body k cfg s = Inr s'"
  shows "take (length (u_list s)) (u_list s') = u_list s \<and>
         take (length (v_list s)) (v_list s') = v_list s \<and>
         take (length (eta_list s)) (eta_list s') = eta_list s \<and>
         buffers s' = buffers s \<and> fresh s \<le> fresh s' \<and>
         (\<forall>a. a < fresh s \<and> a \<notin> set (buffers s) \<longrightarrow> rd s' a = rd s a)"
  using assms
proof (induction k arbitrary: s)
  case 0
  then show ?case by simp
next
  case (Suc k)
  from Suc.prems(2) obtain s1 where
    s1: "loop_body cfg s = Inr s1" and rest: "iterate_body k cfg s1 = Inr s'"
    by (auto simp: bind_err_Inr_iff)
  have wf1: "well_formed cfg s1"
    using Suc.prems(1) s1 by (rule well_formed_loop_body)
  note l = loop_body_lists [OF Suc.prems(1) s1]
  note ih = Suc.IH [OF wf1 rest]
  have "rd s' a = rd s a" if "a < fresh s" "a \<notin> set (buffers s)" for a
  proof -
    have "rd s' a = rd s1 a"
      using ih that l(4,5) by simp
    then show ?thesis
      using loop_body_frame [OF Suc.prems(1) s1 that] by simp
  qed
  then show ?case
    using ih l by (auto intro: take_take_prefix)
qed

subsection \<open>The whole run\<close>

lemma program_run:
  assumes "N_x cfg \<noteq> 0" "N_x cfg \<noteq> 1" "N_y cfg \<noteq> 0" "N_y cfg \<noteq> 1"
    "anim_interval cfg \<noteq> 0"
  shows "\<exists>s0 s'. pre_loop cfg (initial_state cfg) = Inr s0 \<and>
     program cfg = iterate_body (nat (max_time_step cfg - 1)) cfg s0 \<and>
     program cfg = Inr s' \<and> time_step s' = 1 + int (nat (max_time_step cfg - 1))"
proof -
  from pre_loop_total [OF assms(1,3)] obtain s0 where
    s0: "pre_loop cfg (initial_state cfg) = Inr s0" ..
  have t0: "time_step s0 = 1"
    using pre_loop_fields(14) [OF s0] by (simp add: initial_state_def)
  have p: "program cfg = iterate_body (nat (max_time_step cfg - 1)) cfg s0"
    using assms(2,4) by (simp add: program_def s0 main_loop_iterate t0)
  from iterate_body_ex [OF assms(1,3,5)] obtain s' where
    s': "iterate_body (nat (max_time_step cfg - 1)) cfg s0 = Inr s'" ..
  have "time_step s' = 1 + int (nat (max_time_step cfg - 1))"
    using time_step_iterate_body [OF s'] by (simp add: t0)
  then show ?thesis
    using s0 p s' by simp
qed

lemma program_small_grid:
  assumes "N_x cfg < 2 \<or> N_y cfg < 2"
  shows "program cfg = Inl ZeroDivisionError \<or> program cfg = Inl IndexError"
proof (cases "N_x cfg = 1 \<or> N_y cfg = 1")
  case True
  then show ?thesis by (simp add: program_def)
next
  case False
  with assms have "N_x cfg = 0 \<or> N_y cfg = 0" by arith
  then have "pre_loop cfg (initial_state cfg) = Inl IndexError"
    by (auto simp: pre_loop_def eastern_boundary_def northern_boundary_def)
  with False show ?thesis by (simp add: program_def)
qed

subsection \<open>The grid and the initial fields\<close>

lemma nth_x_pts:
  "i < N_x cfg \<Longrightarrow> x_pts cfg ! i = - L_x cfg / 2 + real i * dx cfg"
  by (simp add: x_pts_def linspace_def dx_def)

lemma nth_y_pts:
  "j < N_y cfg \<Longrightarrow> y_pts cfg ! j = - L_y cfg / 2 + real j * dy cfg"
  by (simp add: y_pts_def linspace_def dy_def)

lemma x_pts_ends:
  assumes "2 \<le> N_x cfg"
  shows "x_pts cfg ! 0 = - L_x cfg / 2" "x_pts cfg ! (N_x cfg - 1) = L_x cfg / 2"
proof -
  have n: "0 < N_x cfg" "N_x cfg - 1 < N_x cfg" using assms by arith+
  show "x_pts cfg ! 0 = - L_x cfg / 2"
    using nth_x_pts [OF n(1)] by simp
  have "real (N_x cfg - 1) * dx cfg = L_x cfg"
    using assms by (simp add: dx_def of_nat_diff)
  then show "x_pts cfg ! (N_x cfg - 1) = L_x cfg / 2"
    using nth_x_pts [OF n(2)] by simp
qed

lemma y_pts_ends:
  assumes "2 \<le> N_y cfg"
  shows "y_pts cfg ! 0 = - L_y cfg / 2" "y_pts cfg ! (N_y cfg - 1) = L_y cfg / 2"
proof -
  have n: "0 < N_y cfg" "N_y cfg - 1 < N_y cfg" using assms by arith+
  show "y_pts cfg ! 0 = - L_y cfg / 2"
    using nth_y_pts [OF n(1)] by simp
  have "real (N_y cfg - 1) * dy cfg = L_y cfg"
    using assms by (simp add: dy_def of_nat_diff)
  then show "y_pts cfg ! (N_y cfg - 1) = L_y cfg / 2"
    using nth_y_pts [OF n(2)] by simp
qed

lemma initial_state_rd:
  "rd (initial_state cfg) (u_n (initial_state cfg)) = zeros (N_x cfg) (N_y cfg)"
  "rd (initial_state cfg) (v_n (initial_state cfg)) = zeros (N_x cfg) (N_y cfg)"
  "rd (initial_state cfg) (eta_n (initial_state cfg)) = eta_initial cfg"
  by (simp_all add: initial_state_def rd_def)

subsection \<open>The block before the loop\<close>

lemma array_eqI:
  assumes "shape n m a" "shape n m b" "\<And>i j. i < n \<Longrightarrow> j < m \<Longrightarrow> a ! i ! j = b ! i ! j"
  shows "a = b"
proof (rule nth_equalityI)
  show "length a = length b"
    using assms(1,2) by (simp add: shape_iff)
next
  fix i assume "i < length a"
  then have i: "i < n" using assms(1) by (simp add: shape_iff)
  show "a ! i = b ! i"
  proof (rule nth_equalityI)
    show "length (a ! i) = length (b ! i)"
      using assms(1,2) i by (simp add: shape_iff)
  next
    fix j assume "j < length (a ! i)"
    then have "j < m" using assms(1) i by (simp add: shape_iff)
    with i show "a ! i ! j = b ! i ! j" by (rule assms(3))
  qed
qed

lemma loop_body_cases:
  "loop_body cfg s =
     (if N_y cfg = 0 \<or> N_x cfg = 0 then Inl IndexError
      else if anim_interval cfg = 0 then Inl ZeroDivisionError
      else Inr (projr (loop_body cfg s)))"
  by (simp add: loop_body_def bind_err_def northern_boundary_def eastern_boundary_def
      sample_def Let_def)

lemma pre_loop_effect:
  assumes wf: "well_formed cfg s" and pre: "pre_loop cfg s = Inr s'"
  shows "rd s' a =
     (if a = u_np1 s then next_u cfg s else if a = v_np1 s then next_v cfg s else rd s a)"
proof -
  have d: "distinct (var_addrs s)"
    using wf by (simp add: well_formed_def)
  note dd = var_addrs_neq [OF d]
  show ?thesis
    unfolding pre_loop_Inr(3) [OF pre]
    by (simp add: rd_wr stmt_defs dd next_u_def next_v_def)
qed

lemma well_formed_pre_loop:
  assumes wf: "well_formed cfg s" and pre: "pre_loop cfg s = Inr s'"
  shows "well_formed cfg s'"
proof -
  note f = pre_loop_fields [OF pre]
  note sh = well_formed_shape [OF wf] shape_next(1,2) [OF wf]
  have d: "distinct (var_addrs s)"
    using wf by (simp add: well_formed_def)
  note dd = var_addrs_neq [OF d]
  have 1: "distinct (var_addrs s')"
    using d by (simp add: var_addrs_def f)
  have 2: "list_all (\<lambda>a. a < fresh s' \<and> shape (N_x cfg) (N_y cfg) (rd s' a)) (var_addrs s')"
    unfolding var_addrs_def f list.pred_inject pre_loop_effect [OF wf pre]
    using well_formed_fresh [OF wf] sh by (simp add: dd)
  have 3: "list_all (\<lambda>a. a < fresh s' \<and> a \<notin> set (buffers s'))
      (u_list s' @ v_list s' @ eta_list s')"
    using wf by (simp add: well_formed_def buffers_def f)
  show ?thesis
    using 1 2 3 by (simp add: well_formed_def)
qed

lemma next_old_buffers:
  assumes s: "well_formed cfg s" and t: "well_formed cfg t"
    and eq: "rd s (u_n s) = rd t (u_n t)" "rd s (v_n s) = rd t (v_n t)"
      "rd s (eta_n s) = rd t (eta_n t)"
  shows "next_u cfg s = next_u cfg t" "next_v cfg s = next_v cfg t"
proof -
  show "next_u cfg s = next_u cfg t"
    using shape_next(1) [OF s] shape_next(1) [OF t]
    by (rule array_eqI) (simp add: nth_next_u [OF s] nth_next_u [OF t] eq)
  show "next_v cfg s = next_v cfg t"
    using shape_next(2) [OF s] shape_next(2) [OF t]
    by (rule array_eqI) (simp add: nth_next_v [OF s] nth_next_v [OF t] eq)
qed

text \<open>The loop body does not depend on what \<open>u_np1\<close> and \<open>v_np1\<close> hold when it starts.\<close>

lemma loop_body_old_buffers:
  assumes s: "well_formed cfg s" and t: "well_formed cfg t"
    and fields: "fresh t = fresh s" "u_n t = u_n s" "u_np1 t = u_np1 s" "v_n t = v_n s"
      "v_np1 t = v_np1 s" "eta_n t = eta_n s" "eta_np1 t = eta_np1 s" "h_e t = h_e s"
      "h_w t = h_w s" "h_n t = h_n s" "h_s t = h_s s" "uhwe t = uhwe s" "vhns t = vhns s"
      "time_step t = time_step s" "eta_list t = eta_list s" "u_list t = u_list s"
      "v_list t = v_list s"
    and heap: "\<And>a. a \<noteq> u_np1 s \<Longrightarrow> a \<noteq> v_np1 s \<Longrightarrow> rd t a = rd s a"
  shows "loop_body cfg t = loop_body cfg s"
proof (cases "N_y cfg = 0 \<or> N_x cfg = 0 \<or> anim_interval cfg = 0")
  case True
  then show ?thesis
    by (subst (1 2) loop_body_cases) auto
next
  case False
  then have nz: "N_x cfg \<noteq> 0" "N_y cfg \<noteq> 0" "anim_interval cfg \<noteq> 0" by simp_all
  obtain s' where s': "loop_body cfg s = Inr s'"
    using loop_body_total [OF nz] by blast
  obtain t' where t': "loop_body cfg t = Inr t'"
    using loop_body_total [OF nz] by blast
  have d: "distinct (var_addrs s)"
    using s by (simp add: well_formed_def)
  note dd = var_addrs_neq [OF d]
  have r: "rd t (u_n s) = rd s (u_n s)" "rd t (v_n s) = rd s (v_n s)"
    "rd t (eta_n s) = rd s (eta_n s)" "rd t (eta_np1 s) = rd s (eta_np1 s)"
    "rd t (h_e s) = rd s (h_e s)" "rd t (h_w s) = rd s (h_w s)" "rd t (h_n s) = rd s (h_n s)"
    "rd t (h_s s) = rd s (h_s s)" "rd t (uhwe s) = rd s (uhwe s)"
    "rd t (vhns s) = rd s (vhns s)"
    by (simp_all add: heap dd)
  have uv: "next_u cfg t = next_u cfg s" "next_v cfg t = next_v cfg s"
    using next_old_buffers [OF t s] by (simp_all add: fields r)
  have n: "next_h_e cfg t = next_h_e cfg s" "next_h_w cfg t = next_h_w cfg s"
    "next_h_n cfg t = next_h_n cfg s" "next_h_s cfg t = next_h_s cfg s"
    by (simp_all add: next_h_e_def next_h_w_def next_h_n_def next_h_s_def uv fields r)
  have n2: "next_uhwe cfg t = next_uhwe cfg s" "next_vhns cfg t = next_vhns cfg s"
    by (simp_all add: next_uhwe_def next_vhns_def uv n fields r)
  have n3: "next_eta cfg t = next_eta cfg s"
    by (simp add: next_eta_def n2 fields r)
  note es = loop_body_effect [OF s s'] and et = loop_body_effect [OF t t']
  have h: "heap t' = heap s'"
  proof (rule ext)
    fix a
    have "rd t' a = rd s' a"
      unfolding es(1) et(1) by (simp add: fields uv n n2 n3 heap)
    then show "heap t' a = heap s' a"
      by (simp add: rd_def)
  qed
  have "t' = s'"
    by (rule state.equality) (simp_all add: h es(2-) et(2-) fields)
  then show ?thesis
    by (simp add: s' t')
qed

subsection \<open>The small configuration and state\<close>

lemma test_config_simps [simp]:
  "N_x test_config = 3" "N_y test_config = 3" "anim_interval test_config = 1"
  "max_time_step test_config = 3" "g test_config = 4" "H test_config = 1"
  "dx test_config = 1" "dy test_config = 1" "dt test_config = 1 / 20"
  by (simp_all add: test_config_def default_config_def dx_def dy_def dt_def)

lemma test_state_fields [simp]:
  "fresh test_state = 13" "u_n test_state = 0" "u_np1 test_state = 1" "v_n test_state = 2"
  "v_np1 test_state = 3" "eta_n test_state = 12" "eta_np1 test_state = 5"
  "h_e test_state = 6" "h_w test_state = 7" "h_n test_state = 8" "h_s test_state = 9"
  "uhwe test_state = 10" "vhns test_state = 11" "time_step test_state = 1"
  "u_list test_state = []" "v_list test_state = []" "eta_list test_state = []"
  by (simp_all add: test_state_def initial_state_def)

lemma test_state_rd [simp]:
  "rd test_state 0 = [[1, 0, -1], [0, 0, 0], [0, 0, 0]]"
  "rd test_state 2 = [[0, 2, 0], [1, 0, 0], [-1, 0, 0]]"
  "rd test_state 12 = [[0, 5, 10], [5, 5, 0], [0, 0, 5]]"
  "a < 12 \<Longrightarrow> a \<noteq> 0 \<Longrightarrow> a \<noteq> 2 \<Longrightarrow> rd test_state a = zeros 3 3"
  by (simp_all add: test_state_def initial_state_def rd_def)

lemma zeros_3_3: "zeros 3 3 = [[0, 0, 0], [0, 0, 0], [0, 0, 0]]"
  by (simp add: zeros_def numeral_3_eq_3)

lemma well_formed_test: "well_formed test_config test_state"
  by (simp add: well_formed_def var_addrs_def buffers_def shape_def zeros_3_3)

lemma loop_body_test: "loop_body test_config test_state = Inr test_next"
  unfolding test_next_def by (rule loop_body_total) simp_all

lemma test_next_values:
  "rd test_next (u_np1 test_next) ! 0 ! 0 = 0"
  "rd test_next (v_np1 test_next) ! 0 ! 0 = - 1"
  "rd test_next (h_e test_next) ! 0 ! 0 = 6"
  "rd test_next (h_n test_next) ! 0 ! 0 = 6"
  "rd test_next (uhwe test_next) ! 0 ! 0 = 0"
  "rd test_next (vhns test_next) ! 0 ! 0 = - 6"
proof -
  note v = loop_body_vars [OF well_formed_test loop_body_test]
  have u: "next_u test_config test_state ! 0 ! 0 = 0"
    using nth_next_u [OF well_formed_test, of 0 0] by simp
  have w: "next_v test_config test_state ! 0 ! 0 = - 1"
    using nth_next_v [OF well_formed_test, of 0 0] by simp
  have he: "next_h_e test_config test_state ! 0 ! 0 = 6"
    using nth_next_h_e [OF well_formed_test, of 0 0] by (simp add: u)
  have hn: "next_h_n test_config test_state ! 0 ! 0 = 6"
    using nth_next_h_n [OF well_formed_test, of 0 0] by (simp add: w)
  have uh: "next_uhwe test_config test_state ! 0 ! 0 = 0"
    using nth_next_uhwe [OF well_formed_test, of 0 0] by (simp add: u)
  have vh: "next_vhns test_config test_state ! 0 ! 0 = - 6"
    using nth_next_vhns [OF well_formed_test, of 0 0] by (simp add: w hn)
  show "rd test_next (u_np1 test_next) ! 0 ! 0 = 0"
    "rd test_next (v_np1 test_next) ! 0 ! 0 = - 1"
    "rd test_next (h_e test_next) ! 0 ! 0 = 6"
    "rd test_next (h_n test_next) ! 0 ! 0 = 6"
    "rd test_next (uhwe test_next) ! 0 ! 0 = 0"
    "rd test_next (vhns test_next) ! 0 ! 0 = - 6"
    by (simp_all add: v u w he hn uh vh)
qed

lemma iterate_body_test: "iterate_body (Suc 1) test_config test_state = Inr test_later"
  unfolding test_later_def Suc_1 by (rule iterate_body_total) simp_all

lemma iterate_body_test_next: "iterate_body 1 test_config test_next = Inr test_later"
  using iterate_body_test by (simp add: loop_body_test)

lemma test_next_sampled:
  "time_step test_next mod anim_interval test_config = 0"
  "u_list test_next = [u_n test_next]" "v_list test_next = [v_n test_next]"
  "eta_list test_next = [eta_n test_next]"
  by (simp_all add: loop_body_effect(2-) [OF well_formed_test loop_body_test])

lemma negative_config_simps [simp]:
  "N_x negative_config = 3" "N_y negative_config = 3" "anim_interval negative_config = 1"
  "max_time_step negative_config = 3" "g negative_config = 4" "H negative_config = 1"
  "dx negative_config = - 1" "dy negative_config = - 1" "dt negative_config = - (1 / 20)"
  by (simp_all add: negative_config_def test_config_def default_config_def dx_def dy_def dt_def)

section \<open>The claims\<close>

text \<open>Every state of a run is well-formed: the state after startup is
  (\<open>well_formed_initial_state\<close>), the block before the loop keeps it so
  (\<open>well_formed_pre_loop\<close>), and so does every execution of the loop body
  (\<open>well_formed_loop_body\<close>). The theorems about a step are therefore stated for an arbitrary
  well-formed state at the head of the loop.\<close>

subsection \<open>C1: the momentum predictor\<close>

text \<open>C1. In every execution of the loop body, started in a well-formed state, the new
  velocities are \<open>u[i,j] - (g*dt/dx)*(eta[i+1,j] - eta[i,j])\<close> for all \<open>i < N_x - 1\<close> and all
  \<open>j\<close>, and \<open>v[i,j] - (g*dt/dy)*(eta[i,j+1] - eta[i,j])\<close> for all \<open>j < N_y - 1\<close> and all \<open>i\<close>,
  computed from the fields at the start of the step. Nothing else enters: the equation holds
  for every configuration, whatever its Coriolis, friction and wind constants and toggles.\<close>

theorem momentum_predictor:
  assumes "well_formed cfg s" and "loop_body cfg s = Inr s'"
  shows "(i < N_x cfg - 1 \<and> j < N_y cfg \<longrightarrow>
            rd s' (u_n s') ! i ! j =
              rd s (u_n s) ! i ! j
              - g cfg * dt cfg / dx cfg * (rd s (eta_n s) ! Suc i ! j - rd s (eta_n s) ! i ! j)) \<and>
         (i < N_x cfg \<and> j < N_y cfg - 1 \<longrightarrow>
            rd s' (v_n s') ! i ! j =
              rd s (v_n s) ! i ! j
              - g cfg * dt cfg / dy cfg * (rd s (eta_n s) ! i ! Suc j - rd s (eta_n s) ! i ! j))"
proof -
  note v = loop_body_vars [OF assms]
  have "rd s' (u_n s') ! i ! j =
      rd s (u_n s) ! i ! j
      - g cfg * dt cfg / dx cfg * (rd s (eta_n s) ! Suc i ! j - rd s (eta_n s) ! i ! j)"
    if "i < N_x cfg - 1" "j < N_y cfg"
  proof -
    from that have "i < N_x cfg" by arith
    with that show ?thesis
      unfolding v using nth_next_u [OF assms(1), of i j] by simp
  qed
  moreover have "rd s' (v_n s') ! i ! j =
      rd s (v_n s) ! i ! j
      - g cfg * dt cfg / dy cfg * (rd s (eta_n s) ! i ! Suc j - rd s (eta_n s) ! i ! j)"
    if "i < N_x cfg" "j < N_y cfg - 1"
  proof -
    from that have "j < N_y cfg" by arith
    with that show ?thesis
      unfolding v using nth_next_v [OF assms(1), of i j] by simp
  qed
  ultimately show ?thesis by blast
qed

theorem momentum_predictor_witness:
  "well_formed test_config test_state \<and> loop_body test_config test_state = Inr test_next \<and>
   rd test_next (u_n test_next) ! 0 ! 2 = 1 \<and> rd test_next (v_n test_next) ! 1 ! 0 = 1"
  using momentum_predictor [OF well_formed_test loop_body_test, of 0 2]
    momentum_predictor [OF well_formed_test loop_body_test, of 1 0]
  by (simp add: well_formed_test loop_body_test)

subsection \<open>C2: the boundary invariant\<close>

text \<open>C2. After every completed execution of the loop body (after \<open>k + 1\<close> executions, for
  every \<open>k\<close>), started in a well-formed state, the last row of \<open>u_n\<close> and the last column of
  \<open>v_n\<close> are exactly zero: \<open>u[N_x - 1, j] = 0\<close> for every \<open>j\<close> and \<open>v[i, N_y - 1] = 0\<close> for
  every \<open>i\<close>.\<close>

theorem boundary_invariant:
  assumes "well_formed cfg s" and "iterate_body (Suc k) cfg s = Inr s'"
  shows "(j < N_y cfg \<longrightarrow> rd s' (u_n s') ! (N_x cfg - 1) ! j = 0) \<and>
         (i < N_x cfg \<longrightarrow> rd s' (v_n s') ! i ! (N_y cfg - 1) = 0)"
proof -
  from assms(2) obtain t where
    t: "iterate_body k cfg s = Inr t" and body: "loop_body cfg t = Inr s'"
    unfolding iterate_body_Suc_last by (auto simp: bind_err_Inr_iff)
  have wf: "well_formed cfg t"
    using assms(1) t by (rule iterate_body_well_formed)
  note v = loop_body_vars [OF wf body]
  note nz = loop_body_nonzero [OF body]
  have "rd s' (u_n s') ! (N_x cfg - 1) ! j = 0" if "j < N_y cfg"
    unfolding v using nth_next_u [OF wf, of "N_x cfg - 1" j] nz that by simp
  moreover have "rd s' (v_n s') ! i ! (N_y cfg - 1) = 0" if "i < N_x cfg"
    unfolding v using nth_next_v [OF wf, of i "N_y cfg - 1"] nz that by simp
  ultimately show ?thesis by blast
qed

subsection \<open>C3: the upwind interface thickness\<close>

text \<open>C3. After an execution of the loop body, each interior x-face thickness \<open>h_e[i, j]\<close>
  (\<open>i < N_x - 1\<close>) is \<open>eta_n + H\<close> of cell \<open>i\<close> if the just-updated \<open>u_np1[i, j]\<close> is strictly
  positive and of cell \<open>i + 1\<close> otherwise; \<open>h_w[i, j]\<close> for \<open>i \<ge> 1\<close> is the same choice for the
  face between \<open>i - 1\<close> and \<open>i\<close>; the domain-edge faces \<open>h_e[N_x - 1, j]\<close> and \<open>h_w[0, j]\<close> take
  the depth of their own cell; \<open>h_n\<close> and \<open>h_s\<close> do the same in y with \<open>v_np1\<close>. In particular
  a face velocity of exactly 0 gives the depth of the east (north) cell.\<close>

theorem upwind_thickness:
  assumes "well_formed cfg s" and "loop_body cfg s = Inr s'"
    and "i < N_x cfg" and "j < N_y cfg"
  shows "rd s' (h_e s') ! i ! j =
           (if i < N_x cfg - 1
            then (if 0 < rd s' (u_np1 s') ! i ! j then rd s (eta_n s) ! i ! j + H cfg
                  else rd s (eta_n s) ! Suc i ! j + H cfg)
            else rd s (eta_n s) ! i ! j + H cfg) \<and>
         rd s' (h_w s') ! i ! j =
           (if 1 \<le> i
            then (if 0 < rd s' (u_np1 s') ! (i - 1) ! j then rd s (eta_n s) ! (i - 1) ! j + H cfg
                  else rd s (eta_n s) ! i ! j + H cfg)
            else rd s (eta_n s) ! i ! j + H cfg) \<and>
         rd s' (h_n s') ! i ! j =
           (if j < N_y cfg - 1
            then (if 0 < rd s' (v_np1 s') ! i ! j then rd s (eta_n s) ! i ! j + H cfg
                  else rd s (eta_n s) ! i ! Suc j + H cfg)
            else rd s (eta_n s) ! i ! j + H cfg) \<and>
         rd s' (h_s s') ! i ! j =
           (if 1 \<le> j
            then (if 0 < rd s' (v_np1 s') ! i ! (j - 1) then rd s (eta_n s) ! i ! (j - 1) + H cfg
                  else rd s (eta_n s) ! i ! j + H cfg)
            else rd s (eta_n s) ! i ! j + H cfg) \<and>
         (i < N_x cfg - 1 \<and> rd s' (u_np1 s') ! i ! j = 0 \<longrightarrow>
            rd s' (h_e s') ! i ! j = rd s (eta_n s) ! Suc i ! j + H cfg) \<and>
         (j < N_y cfg - 1 \<and> rd s' (v_np1 s') ! i ! j = 0 \<longrightarrow>
            rd s' (h_n s') ! i ! j = rd s (eta_n s) ! i ! Suc j + H cfg)"
  unfolding loop_body_vars [OF assms(1,2)]
  using nth_next_h_e [OF assms(1,3,4)] nth_next_h_w [OF assms(1,3,4)]
    nth_next_h_n [OF assms(1,3,4)] nth_next_h_s [OF assms(1,3,4)]
  by simp

subsection \<open>C4: the continuity update\<close>

text \<open>C4. After an execution of the loop body, \<open>eta[i, j]\<close> is the old \<open>eta[i, j]\<close> minus
  \<open>dt*(uhwe[i, j]/dx + vhns[i, j]/dy)\<close>, where \<open>uhwe[i, j]\<close> is
  \<open>u[i, j]*h_e[i, j] - u[i-1, j]*h_w[i, j]\<close> for \<open>i \<ge> 1\<close> and \<open>u[0, j]*h_e[0, j]\<close> for \<open>i = 0\<close>, and
  \<open>vhns\<close> is the same in y. No source or sink term appears, for any value of the toggles.\<close>

theorem continuity_update:
  assumes "well_formed cfg s" and "loop_body cfg s = Inr s'"
    and "i < N_x cfg" and "j < N_y cfg"
  shows "rd s' (eta_n s') ! i ! j =
           rd s (eta_n s) ! i ! j
           - dt cfg * (rd s' (uhwe s') ! i ! j / dx cfg + rd s' (vhns s') ! i ! j / dy cfg) \<and>
         rd s' (uhwe s') ! i ! j =
           (if 1 \<le> i
            then rd s' (u_np1 s') ! i ! j * rd s' (h_e s') ! i ! j
                 - rd s' (u_np1 s') ! (i - 1) ! j * rd s' (h_w s') ! i ! j
            else rd s' (u_np1 s') ! i ! j * rd s' (h_e s') ! i ! j) \<and>
         rd s' (vhns s') ! i ! j =
           (if 1 \<le> j
            then rd s' (v_np1 s') ! i ! j * rd s' (h_n s') ! i ! j
                 - rd s' (v_np1 s') ! i ! (j - 1) * rd s' (h_s s') ! i ! j
            else rd s' (v_np1 s') ! i ! j * rd s' (h_n s') ! i ! j)"
  unfolding loop_body_vars [OF assms(1,2)]
  using nth_next_eta [OF assms(1,3,4)] nth_next_uhwe [OF assms(1,3,4)]
    nth_next_vhns [OF assms(1,3,4)]
  by simp

subsection \<open>Concrete instances of C2, C3 and C4\<close>

theorem boundary_invariant_witness:
  "well_formed test_config test_state \<and>
   iterate_body (Suc 1) test_config test_state = Inr test_later \<and>
   (0::nat) < N_y test_config \<and> (0::nat) < N_x test_config \<and>
   rd test_later (u_n test_later) ! 2 ! 0 = 0 \<and> rd test_later (v_n test_later) ! 0 ! 2 = 0"
  using boundary_invariant [OF well_formed_test iterate_body_test, of 0 0]
    well_formed_test iterate_body_test
  by (simp del: iterate_body.simps)

theorem upwind_thickness_witness:
  "well_formed test_config test_state \<and> loop_body test_config test_state = Inr test_next \<and>
   (0::nat) < N_x test_config \<and> (0::nat) < N_y test_config \<and>
   rd test_next (u_np1 test_next) ! 0 ! 0 = 0 \<and>
   rd test_next (h_e test_next) ! 0 ! 0 = rd test_state (eta_n test_state) ! 1 ! 0 + 1 \<and>
   rd test_next (h_e test_next) ! 0 ! 0 = 6"
  using upwind_thickness [OF well_formed_test loop_body_test, of 0 0]
  by (simp add: well_formed_test loop_body_test test_next_values(1))

theorem continuity_update_witness:
  "well_formed test_config test_state \<and> loop_body test_config test_state = Inr test_next \<and>
   (0::nat) < N_x test_config \<and> (0::nat) < N_y test_config \<and>
   rd test_next (eta_n test_next) ! 0 ! 0 = 3 / 10"
  using continuity_update [OF well_formed_test loop_body_test, of 0 0]
  by (simp add: well_formed_test loop_body_test test_next_values)

subsection \<open>C5: conservation of the sum of eta\<close>

text \<open>C5. For every configuration (so also with the source and sink toggles off) and every
  well-formed state, one execution of the loop body leaves the sum of \<open>eta\<close> over all cells
  unchanged, in exact arithmetic: the step itself sets the eastern and northern wall
  velocities to zero, the western and southern faces carry no inflow, and the interior
  fluxes cancel in pairs.\<close>

theorem eta_sum_conserved:
  assumes "well_formed cfg s" and "loop_body cfg s = Inr s'"
  shows "np_sum (rd s' (eta_n s')) = np_sum (rd s (eta_n s))"
  unfolding loop_body_vars(5) [OF assms] using assms(1) by (rule np_sum_next_eta)

theorem eta_sum_conserved_witness:
  "well_formed test_config test_state \<and> loop_body test_config test_state = Inr test_next \<and>
   np_sum (rd test_next (eta_n test_next)) = 30"
  using eta_sum_conserved [OF well_formed_test loop_body_test]
  by (simp add: well_formed_test loop_body_test np_sum_def)

subsection \<open>C6: the number of iterations of the main loop\<close>

text \<open>C6. The main loop terminates (\<open>main_loop\<close> is a total function), but it does not
  execute the step body \<open>max_time_step\<close> times: \<open>time_step\<close> starts at 1 and the loop runs
  while \<open>time_step < max_time_step\<close>. With the constants of the script
  (\<open>max_time_step = 5000\<close>) the run is the block before the loop followed by exactly 4999
  executions of the body, and it ends with \<open>time_step = 5000\<close>; the comment next to the
  constant says that the loop will run 5000 times.\<close>

theorem default_run_executes_4999:
  "program default_config =
     bind_err (pre_loop default_config (initial_state default_config))
       (iterate_body 4999 default_config) \<and>
   map_sum id time_step (program default_config) = Inr 5000"
proof -
  have nz: "N_x default_config \<noteq> 0" "N_y default_config \<noteq> 0"
    "anim_interval default_config \<noteq> 0"
    by (simp_all add: default_config_def)
  from pre_loop_total [OF nz(1,2)] obtain s0 where
    s0: "pre_loop default_config (initial_state default_config) = Inr s0" ..
  have t0: "time_step s0 = 1"
    using pre_loop_fields(14) [OF s0] by (simp add: initial_state_def)
  have m: "max_time_step default_config = 5000"
    by (simp add: default_config_def)
  have p: "program default_config = main_loop default_config s0"
    by (simp add: program_def s0) (simp add: default_config_def)
  have l: "main_loop default_config s0 = iterate_body 4999 default_config s0"
    unfolding main_loop_iterate by (simp add: t0 m)
  from iterate_body_ex [OF nz] obtain s' where
    s': "iterate_body 4999 default_config s0 = Inr s'" ..
  have "time_step s' = 5000"
    using time_step_iterate_body [OF s'] by (simp add: t0)
  then show ?thesis
    by (simp add: p l s0 s')
qed

subsection \<open>C7: the sampler\<close>

text \<open>C7, as the claim states it, fails: at a sampling step the entries appended to the three
  lists are the current array objects \<open>u_n\<close>, \<open>v_n\<close>, \<open>eta_n\<close> themselves (the same
  references), not copies of them, and nothing else is recorded with them: the lists hold
  array references only, no simulated time.\<close>

theorem sampler_appends_reference:
  "loop_body test_config test_state = Inr test_next \<and>
   time_step test_next mod anim_interval test_config = 0 \<and>
   last (u_list test_next) = u_n test_next \<and> last (v_list test_next) = v_n test_next \<and>
   last (eta_list test_next) = eta_n test_next"
  by (simp add: loop_body_test test_next_sampled)

text \<open>C7, amended. If the counter \<open>time_step\<close>, after its increment at the end of a step, is a
  multiple of \<open>anim_interval\<close>, the step appends the references of the current \<open>u_n\<close>, \<open>v_n\<close>,
  \<open>eta_n\<close> to \<open>u_list\<close>, \<open>v_list\<close>, \<open>eta_list\<close>, and otherwise leaves the lists alone. These
  arrays were allocated by the rotation of that same step, and no later step writes to them:
  after any number \<open>k\<close> of further steps the lists still start with the same entries, every
  sampled array has the contents it had, and the entry appended at this step holds the field
  values of this step.\<close>

theorem sampler_frame:
  assumes "well_formed cfg s" and "loop_body cfg s = Inr s'"
    and "iterate_body k cfg s' = Inr s''"
  shows "(time_step s' mod anim_interval cfg = 0 \<longrightarrow>
            u_list s' = u_list s @ [u_n s'] \<and> v_list s' = v_list s @ [v_n s'] \<and>
            eta_list s' = eta_list s @ [eta_n s'] \<and>
            rd s'' (u_list s'' ! length (u_list s)) = rd s' (u_n s') \<and>
            rd s'' (v_list s'' ! length (v_list s)) = rd s' (v_n s') \<and>
            rd s'' (eta_list s'' ! length (eta_list s)) = rd s' (eta_n s')) \<and>
         (time_step s' mod anim_interval cfg \<noteq> 0 \<longrightarrow>
            u_list s' = u_list s \<and> v_list s' = v_list s \<and> eta_list s' = eta_list s) \<and>
         take (length (u_list s')) (u_list s'') = u_list s' \<and>
         take (length (v_list s')) (v_list s'') = v_list s' \<and>
         take (length (eta_list s')) (eta_list s'') = eta_list s' \<and>
         list_all (\<lambda>a. rd s'' a = rd s' a) (u_list s' @ v_list s' @ eta_list s')"
proof -
  note e = loop_body_effect(2-) [OF assms(1,2)]
  have wf': "well_formed cfg s'"
    using assms(1,2) by (rule well_formed_loop_body)
  note f = iterate_body_frame [OF wf' assms(3)]
  have keep: "list_all (\<lambda>a. rd s'' a = rd s' a) (u_list s' @ v_list s' @ eta_list s')"
    using wf' f unfolding well_formed_def list_all_iff by blast
  have nth_take: "\<And>xs ys n. take (length xs) ys = xs \<Longrightarrow> n < length xs \<Longrightarrow> ys ! n = xs ! n"
    by (metis nth_take)
  show ?thesis
  proof (cases "time_step s' mod anim_interval cfg = 0")
    case False
    then show ?thesis
      using f keep by (simp add: e)
  next
    case True
    then have l: "u_list s' = u_list s @ [u_n s']" "v_list s' = v_list s @ [v_n s']"
      "eta_list s' = eta_list s @ [eta_n s']"
      by (simp_all add: e)
    have u: "u_list s'' ! length (u_list s) = u_n s'"
      using nth_take [of "u_list s'" "u_list s''" "length (u_list s)"] f by (simp add: l)
    have v: "v_list s'' ! length (v_list s) = v_n s'"
      using nth_take [of "v_list s'" "v_list s''" "length (v_list s)"] f by (simp add: l)
    have h: "eta_list s'' ! length (eta_list s) = eta_n s'"
      using nth_take [of "eta_list s'" "eta_list s''" "length (eta_list s)"] f by (simp add: l)
    have "rd s'' (u_n s') = rd s' (u_n s')" "rd s'' (v_n s') = rd s' (v_n s')"
      "rd s'' (eta_n s') = rd s' (eta_n s')"
      using keep by (simp_all add: l)
    then show ?thesis
      using True f keep l by (simp add: u v h)
  qed
qed

theorem sampler_frame_witness:
  "well_formed test_config test_state \<and> loop_body test_config test_state = Inr test_next \<and>
   iterate_body 1 test_config test_next = Inr test_later \<and>
   time_step test_next mod anim_interval test_config = 0 \<and>
   length (u_list test_state) = 0 \<and>
   rd test_later (u_list test_later ! 0) ! 0 ! 2 = 1 \<and>
   rd test_later (eta_list test_later ! 0) ! 0 ! 0 = 3 / 10"
proof -
  have u: "rd test_next (u_n test_next) ! 0 ! 2 = 1"
    unfolding loop_body_vars(1) [OF well_formed_test loop_body_test]
    using nth_next_u [OF well_formed_test, of 0 2] by simp
  have "next_eta test_config test_state ! 0 ! 0 = 3 / 10"
    using nth_next_eta [OF well_formed_test, of 0 0] test_next_values(5,6)
    by (simp add: loop_body_vars [OF well_formed_test loop_body_test])
  then have e: "rd test_next (eta_n test_next) ! 0 ! 0 = 3 / 10"
    by (simp add: loop_body_vars(5) [OF well_formed_test loop_body_test])
  show ?thesis
    using sampler_frame [OF well_formed_test loop_body_test iterate_body_test_next]
      iterate_body_test_next
    by (simp add: well_formed_test loop_body_test test_next_sampled(1) u e
        del: iterate_body.simps)
qed

subsection \<open>C8: configuration errors\<close>

text \<open>C8, as the claim states it, fails: the script checks nothing. With negative domain
  lengths \<open>dx\<close>, \<open>dy\<close> and \<open>dt\<close> are negative, \<open>dt\<close> exceeds \<open>min(dx, dy)/sqrt(g*H)\<close>, and the
  run still begins and executes the loop to its end (\<open>time_step\<close> reaches
  \<open>max_time_step = 3\<close>).\<close>

theorem no_configuration_check:
  "dx negative_config \<le> 0 \<and> dy negative_config \<le> 0 \<and> dt negative_config \<le> 0 \<and>
   \<not> dt negative_config
       \<le> min (dx negative_config) (dy negative_config)
          / sqrt (g negative_config * H negative_config) \<and>
   map_sum id time_step (program negative_config) = Inr 3"
proof -
  from program_run [of negative_config] obtain s' where
    "program negative_config = Inr s'" "time_step s' = 3"
    by auto
  then show ?thesis by simp
qed

text \<open>C8, amended. The script has no validation step. A run with \<open>N_x < 2\<close> or \<open>N_y < 2\<close> does
  not begin, because Python itself raises: ZeroDivisionError in \<open>dx\<close> or \<open>dy\<close> for a size of 1,
  IndexError in the boundary overwrite before the loop for a size of 0. The time step is not
  checked but constructed as one tenth of the CFL bound: for positive domain lengths, at least
  two points per direction and \<open>g*H > 0\<close>, the values \<open>dx\<close>, \<open>dy\<close>, \<open>dt\<close> are positive and
  \<open>dt \<le> min(dx, dy)/sqrt(g*H)\<close>.\<close>

theorem cfl_by_construction:
  "(N_x cfg < 2 \<or> N_y cfg < 2 \<longrightarrow>
      program cfg = Inl ZeroDivisionError \<or> program cfg = Inl IndexError) \<and>
   (0 < L_x cfg \<and> 0 < L_y cfg \<and> 2 \<le> N_x cfg \<and> 2 \<le> N_y cfg \<and> 0 < g cfg * H cfg \<longrightarrow>
      0 < dx cfg \<and> 0 < dy cfg \<and> 0 < dt cfg \<and>
      dt cfg \<le> min (dx cfg) (dy cfg) / sqrt (g cfg * H cfg))"
proof -
  have "0 < dx cfg \<and> 0 < dy cfg \<and> 0 < dt cfg \<and>
      dt cfg \<le> min (dx cfg) (dy cfg) / sqrt (g cfg * H cfg)"
    if h: "0 < L_x cfg" "0 < L_y cfg" "2 \<le> N_x cfg" "2 \<le> N_y cfg" "0 < g cfg * H cfg"
  proof -
    have x: "0 < dx cfg" using h(1,3) by (simp add: dx_def)
    have y: "0 < dy cfg" using h(2,4) by (simp add: dy_def)
    have r: "0 < sqrt (g cfg * H cfg)" using h(5) by simp
    define b where "b = min (dx cfg) (dy cfg) / sqrt (g cfg * H cfg)"
    have b: "0 < b" using x y r by (simp add: b_def)
    have d: "dt cfg = (1 / 10) * b" by (simp add: dt_def b_def)
    from b have "0 < dt cfg" "dt cfg \<le> b" by (simp_all add: d)
    with x y show ?thesis by (simp add: b_def)
  qed
  with program_small_grid [of cfg] show ?thesis by blast
qed

theorem cfl_by_construction_witness:
  "N_x (test_config\<lparr>N_x := 1\<rparr>) < 2 \<and>
   program (test_config\<lparr>N_x := 1\<rparr>) = Inl ZeroDivisionError \<and>
   0 < L_x test_config \<and> 0 < L_y test_config \<and> 2 \<le> N_x test_config \<and> 2 \<le> N_y test_config \<and>
   0 < g test_config * H test_config \<and> dt test_config = 1 / 20 \<and>
   min (dx test_config) (dy test_config) / sqrt (g test_config * H test_config) = 1 / 2 \<and>
   dt test_config \<le> min (dx test_config) (dy test_config)
      / sqrt (g test_config * H test_config)"
proof -
  have p: "program (test_config\<lparr>N_x := 1\<rparr>) \<noteq> Inl IndexError"
    by (simp add: program_def)
  have l: "0 < L_x test_config" "0 < L_y test_config"
    by (simp_all add: test_config_def default_config_def)
  show ?thesis
    using cfl_by_construction [of "test_config\<lparr>N_x := 1\<rparr>"] cfl_by_construction [of test_config]
      p l
    by simp
qed

subsection \<open>C9: the initial fields\<close>

text \<open>C9, as the claim states it, fails: with the constants of the script the initial \<open>eta\<close>
  at grid point \<open>(0, 0)\<close> is not the value there of the Gaussian bump of amplitude 1 and decay
  scale \<open>0.05*L_x\<close> centred at \<open>(L_x/2.7 - L_x/2, L_y/4 - L_y/2)\<close>.\<close>

theorem initial_bump_centre:
  "rd (initial_state default_config) (eta_n (initial_state default_config)) ! 0 ! 0 \<noteq>
   gaussian_bump 1 (5 / 100 * L_x default_config)
     (L_x default_config / (27 / 10) - L_x default_config / 2)
     (L_y default_config / 4 - L_y default_config / 2)
     (x_pts default_config ! 0) (y_pts default_config ! 0)"
proof -
  have n: "(0::nat) < N_x default_config" "(0::nat) < N_y default_config"
    by (simp_all add: default_config_def)
  have x: "x_pts default_config ! 0 = - 500000" "y_pts default_config ! 0 = - 500000"
    using nth_x_pts [OF n(1)] nth_y_pts [OF n(2)] by (simp_all add: default_config_def)
  have l: "L_x default_config = 1000000" "L_y default_config = 1000000"
    by (simp_all add: default_config_def)
  show ?thesis
    unfolding initial_state_rd nth_eta_initial [OF n] gaussian_bump_def x l
    by (simp add: power2_eq_square)
qed

text \<open>C9, amended. Initially \<open>u_n\<close> and \<open>v_n\<close> are zero everywhere, and \<open>eta_n[i, j]\<close> is the
  Gaussian bump of amplitude 1 and decay scale \<open>0.05E+6 = 50000\<close> in both directions (a
  constant, equal to \<open>0.05*L_x\<close> for the \<open>L_x\<close> of the script), centred at \<open>x = L_x/2.7\<close>,
  \<open>y = L_y/4\<close>, evaluated at the grid point \<open>(x[i], y[j])\<close> of the centred coordinate system:
  \<open>x[i] = -L_x/2 + i*dx\<close>, \<open>y[j] = -L_y/2 + j*dy\<close>, spanning \<open>[-L_x/2, L_x/2]\<close> and
  \<open>[-L_y/2, L_y/2]\<close>. The bump has the value 1 at its centre.\<close>

theorem initial_fields:
  "rd (initial_state cfg) (u_n (initial_state cfg)) = zeros (N_x cfg) (N_y cfg) \<and>
   rd (initial_state cfg) (v_n (initial_state cfg)) = zeros (N_x cfg) (N_y cfg) \<and>
   (i < N_x cfg \<and> j < N_y cfg \<longrightarrow>
      rd (initial_state cfg) (eta_n (initial_state cfg)) ! i ! j =
        gaussian_bump 1 50000 (L_x cfg / (27 / 10)) (L_y cfg / 4)
          (x_pts cfg ! i) (y_pts cfg ! j)) \<and>
   (i < N_x cfg \<longrightarrow> x_pts cfg ! i = - L_x cfg / 2 + real i * dx cfg) \<and>
   (j < N_y cfg \<longrightarrow> y_pts cfg ! j = - L_y cfg / 2 + real j * dy cfg) \<and>
   (2 \<le> N_x cfg \<longrightarrow> x_pts cfg ! 0 = - L_x cfg / 2 \<and> x_pts cfg ! (N_x cfg - 1) = L_x cfg / 2) \<and>
   (2 \<le> N_y cfg \<longrightarrow> y_pts cfg ! 0 = - L_y cfg / 2 \<and> y_pts cfg ! (N_y cfg - 1) = L_y cfg / 2) \<and>
   gaussian_bump 1 50000 (L_x cfg / (27 / 10)) (L_y cfg / 4)
     (L_x cfg / (27 / 10)) (L_y cfg / 4) = 1 \<and>
   (50000 :: real) = 5 / 100 * L_x default_config"
  using x_pts_ends [of cfg] y_pts_ends [of cfg]
  by (simp add: initial_state_rd nth_eta_initial nth_x_pts nth_y_pts gaussian_bump_def
      default_config_def)

theorem initial_fields_witness:
  "(0::nat) < N_x test_config \<and> (0::nat) < N_y test_config \<and> 2 \<le> N_x test_config \<and>
   2 \<le> N_y test_config \<and>
   x_pts test_config ! 0 = - 1 \<and> x_pts test_config ! 2 = 1 \<and>
   y_pts test_config ! 0 = - 1 \<and> y_pts test_config ! 2 = 1 \<and>
   rd (initial_state test_config) (eta_n (initial_state test_config)) ! 0 ! 0 =
     gaussian_bump 1 50000 (20 / 27) (1 / 2) (- 1) (- 1)"
proof -
  have l: "L_x test_config = 2" "L_y test_config = 2"
    by (simp_all add: test_config_def default_config_def)
  show ?thesis
    using initial_fields [of test_config 0 0] by (simp add: l)
qed

subsection \<open>C10: the block before the loop has no observable effect\<close>

text \<open>C10. The script and the script without the momentum update and boundary overwrite
  written before the loop end in the same way: with the same error, or with the same three
  lists of sampled arrays. The block only writes \<open>u_np1\<close> and \<open>v_np1\<close>, and the first execution
  of the loop body overwrites every entry of both before reading them. This holds whenever
  the grid is not empty or the loop runs at least once; for an empty grid and no iteration the
  block itself raises IndexError and the script without it does not.\<close>

theorem pre_loop_unobservable:
  assumes "(N_x cfg \<noteq> 0 \<and> N_y cfg \<noteq> 0) \<or> 1 < max_time_step cfg"
  shows "map_sum id snapshots (program cfg) = map_sum id snapshots (program_without_pre_loop cfg)"
proof (cases "N_x cfg = 1 \<or> N_y cfg = 1")
  case True
  then show ?thesis
    by (simp add: program_def program_without_pre_loop_def)
next
  case n1: False
  let ?s = "initial_state cfg"
  have wf: "well_formed cfg ?s"
    by (rule well_formed_initial_state)
  have ts: "time_step ?s = 1" "u_list ?s = []" "v_list ?s = []" "eta_list ?s = []"
    by (simp_all add: initial_state_def)
  show ?thesis
  proof (cases "N_x cfg = 0 \<or> N_y cfg = 0")
    case True
    with assms have m: "1 < max_time_step cfg" by auto
    from True have "pre_loop cfg ?s = Inl IndexError"
      by (auto simp: pre_loop_def eastern_boundary_def northern_boundary_def)
    moreover from True have "loop_body cfg ?s = Inl IndexError"
      by (subst loop_body_cases) auto
    ultimately show ?thesis
      using n1 m by (simp add: program_def program_without_pre_loop_def
          main_loop.simps [of cfg ?s] ts)
  next
    case False
    then have nz: "N_x cfg \<noteq> 0" "N_y cfg \<noteq> 0" by simp_all
    from pre_loop_total [OF nz] obtain t where t: "pre_loop cfg ?s = Inr t" ..
    note f = pre_loop_fields [OF t]
    have wft: "well_formed cfg t"
      using wf t by (rule well_formed_pre_loop)
    have p: "program cfg = main_loop cfg t"
      "program_without_pre_loop cfg = main_loop cfg ?s"
      using n1 by (simp_all add: program_def program_without_pre_loop_def t)
    show ?thesis
    proof (cases "1 < max_time_step cfg")
      case False
      then show ?thesis
        by (simp add: p main_loop.simps [of cfg ?s] main_loop.simps [of cfg t] f ts
            snapshots_def)
    next
      case True
      have "loop_body cfg t = loop_body cfg ?s"
        using wf wft f
      proof (rule loop_body_old_buffers)
        fix a assume "a \<noteq> u_np1 ?s" "a \<noteq> v_np1 ?s"
        then show "rd t a = rd ?s a"
          by (simp add: pre_loop_effect [OF wf t])
      qed
      then show ?thesis
        using True by (simp add: p main_loop.simps [of cfg ?s] main_loop.simps [of cfg t] f ts)
    qed
  qed
qed

theorem pre_loop_unobservable_witness:
  "N_x test_config \<noteq> 0 \<and> N_y test_config \<noteq> 0 \<and>
   map_sum id snapshots (program test_config) =
     map_sum id snapshots (program_without_pre_loop test_config)"
  using pre_loop_unobservable [of test_config] by simp

end
